theory Spec2Isabelle
  imports Complex_Main "HOL-Library.AList" "HOL-Library.Multiset"
begin

section \<open>JavaScript strings, numbers and regular expressions\<close>

text \<open>
  The analyzer of \<^verbatim>\<open>src/data/RSSFieldAnalyzer.ts\<close> is embedded function by function.
  A JavaScript string is a \<^typ>\<open>string\<close> (a list of code units), so \<open>length\<close> is the
  \<^verbatim>\<open>.length\<close> of the source. A JavaScript number is an exact rational: the rounding of
  IEEE doubles is outside the model. An object whose keys are strings is an association
  list in insertion order, read with \<^const>\<open>map_of\<close> and written with
  \<^const>\<open>AList.update\<close>, which keeps the position of a key that is already there, as
  property assignment does.
\<close>

definition isWhiteSpace :: "char \<Rightarrow> bool" where
  "isWhiteSpace c =
     (c \<in> set [CHR 0x09, CHR 0x0A, CHR 0x0B, CHR 0x0C, CHR 0x0D, CHR 0x20, CHR 0xA0])"

definition trim :: "string \<Rightarrow> string" where
  "trim s = rev (dropWhile isWhiteSpace (rev (dropWhile isWhiteSpace s)))"

definition toLowerCaseChar :: "char \<Rightarrow> char" where
  "toLowerCaseChar c =
     (case map_of (zip ''ABCDEFGHIJKLMNOPQRSTUVWXYZ'' ''abcdefghijklmnopqrstuvwxyz'') c of
        Some d \<Rightarrow> d
      | None \<Rightarrow> c)"

definition toLowerCase :: "string \<Rightarrow> string" where
  "toLowerCase s = map toLowerCaseChar s"

definition startsWith :: "string \<Rightarrow> string \<Rightarrow> bool" where
  "startsWith s p = (take (length p) s = p)"

fun str_includes :: "string \<Rightarrow> string \<Rightarrow> bool" where
  "str_includes [] sub = (sub = [])"
| "str_includes (c # cs) sub = (startsWith (c # cs) sub \<or> str_includes cs sub)"

text \<open>\<^verbatim>\<open>s.replace(pat, rep)\<close> with a string pattern replaces the first occurrence only.\<close>

fun str_replace :: "string \<Rightarrow> string \<Rightarrow> string \<Rightarrow> string" where
  "str_replace [] pat rep = (if pat = [] then rep else [])"
| "str_replace (c # cs) pat rep =
     (if startsWith (c # cs) pat then rep @ drop (length pat) (c # cs)
      else c # str_replace cs pat rep)"

fun str_split :: "char \<Rightarrow> string \<Rightarrow> string list" where
  "str_split d [] = [[]]"
| "str_split d (c # cs) =
     (if c = d then [] # str_split d cs
      else (case str_split d cs of w # ws \<Rightarrow> (c # w) # ws | [] \<Rightarrow> [[c]]))"

definition digit_char :: "nat \<Rightarrow> char" where
  "digit_char d = ''0123456789'' ! (d mod 10)"

fun show_nat_fuel :: "nat \<Rightarrow> nat \<Rightarrow> string" where
  "show_nat_fuel 0 n = [digit_char n]"
| "show_nat_fuel (Suc k) n =
     (if n < 10 then [digit_char n] else show_nat_fuel k (n div 10) @ [digit_char n])"

text \<open>The decimal numeral of a natural number (a number in a template string): \<open>n\<close> has at
  most \<open>n + 1\<close> digits, so the fuel \<open>n\<close> is never used up.\<close>

definition show_nat :: "nat \<Rightarrow> string" where
  "show_nat n = show_nat_fuel n n"

definition isDigit :: "char \<Rightarrow> bool" where
  "isDigit c = (c \<in> set ''0123456789'')"

definition digit_val :: "char \<Rightarrow> nat" where
  "digit_val c = length (takeWhile (\<lambda>d. d \<noteq> c) ''0123456789'')"

text \<open>\<^verbatim>\<open>parseInt\<close> on a string of decimal digits.\<close>

definition parseInt :: "string \<Rightarrow> nat" where
  "parseInt s = foldl (\<lambda>acc c. 10 * acc + digit_val c) 0 s"

subsection \<open>The regular expressions of the source\<close>

text \<open>
  Every regular expression of the source is a sequence of character classes, each
  repeated greedily between a lower and an optional upper bound. \<open>match_here\<close> is the
  backtracking matcher anchored at the start of the string: it returns the substring
  each item matched, trying the longest repetition first.
\<close>

datatype re_item = Rep nat "nat option" "char \<Rightarrow> bool"

definition One :: "(char \<Rightarrow> bool) \<Rightarrow> re_item" where
  "One p = Rep 1 (Some 1) p"

definition Plus :: "(char \<Rightarrow> bool) \<Rightarrow> re_item" where
  "Plus p = Rep 1 None p"

definition Star :: "(char \<Rightarrow> bool) \<Rightarrow> re_item" where
  "Star p = Rep 0 None p"

definition Opt :: "(char \<Rightarrow> bool) \<Rightarrow> re_item" where
  "Opt p = Rep 0 (Some 1) p"

definition lit :: "string \<Rightarrow> re_item list" where
  "lit s = map (\<lambda>c. One (\<lambda>x. x = c)) s"

text \<open>A literal under the \<^verbatim>\<open>i\<close> flag (the literal is written in lower case).\<close>

definition lit_ci :: "string \<Rightarrow> re_item list" where
  "lit_ci s = map (\<lambda>c. One (\<lambda>x. toLowerCaseChar x = c)) s"

fun first_some :: "'a option list \<Rightarrow> 'a option" where
  "first_some [] = None"
| "first_some (Some x # xs) = Some x"
| "first_some (None # xs) = first_some xs"

fun match_here :: "re_item list \<Rightarrow> string \<Rightarrow> string list option" where
  "match_here [] s = Some []"
| "match_here (Rep lo hi p # items) s =
     (let n = length (takeWhile p s);
          m = (case hi of None \<Rightarrow> n | Some h \<Rightarrow> min h n)
      in first_some
           (map (\<lambda>k. case match_here items (drop k s) of
                       None \<Rightarrow> None
                     | Some ms \<Rightarrow> Some (take k s # ms))
                (rev [lo..<Suc m])))"

text \<open>The leftmost match: \<^verbatim>\<open>re.exec(s)\<close>, \<^verbatim>\<open>s.match(re)\<close> and \<^verbatim>\<open>re.test(s)\<close> without the
  \<^verbatim>\<open>g\<close> flag.\<close>

fun re_search :: "re_item list \<Rightarrow> string \<Rightarrow> string list option" where
  "re_search items [] = match_here items []"
| "re_search items (c # cs) =
     (case match_here items (c # cs) of
        Some ms \<Rightarrow> Some ms
      | None \<Rightarrow> re_search items cs)"

definition re_test :: "re_item list \<Rightarrow> string \<Rightarrow> bool" where
  "re_test items s = (re_search items s \<noteq> None)"

text \<open>All matches from left to right, each search starting where the last match ended: the
  \<^verbatim>\<open>while ((match = re.exec(html)) !== null)\<close> loop of a \<^verbatim>\<open>g\<close> expression. (Every match of
  the expression this is used with is at least one character long.)\<close>

fun re_exec_all :: "re_item list \<Rightarrow> string \<Rightarrow> string list list" where
  "re_exec_all items [] = []"
| "re_exec_all items (c # cs) =
     (case match_here items (c # cs) of
        Some ms \<Rightarrow> ms # re_exec_all items (drop (length (concat ms) - 1) cs)
      | None \<Rightarrow> re_exec_all items cs)"

text \<open>\<^verbatim>\<open>/<[^>]+>/\<close>\<close>

definition htmlRegex :: "re_item list" where
  "htmlRegex = lit ''<'' @ [Plus (\<lambda>c. c \<noteq> CHR ''>'')] @ lit ''>''"

text \<open>\<^verbatim>\<open>/https?:\/\/[^\s]+/\<close>\<close>

definition urlRegex :: "re_item list" where
  "urlRegex = lit ''http'' @ [Opt (\<lambda>c. c = CHR ''s'')] @ lit ''://''
                @ [Plus (\<lambda>c. \<not> isWhiteSpace c)]"

definition isQuote :: "char \<Rightarrow> bool" where
  "isQuote c = (c = CHR 0x22 \<or> c = CHR 0x27)"

text \<open>\<^verbatim>\<open>/<img[^>]+src=["']([^"']+)["'][^>]*>/gi\<close>: the group is item 10.\<close>

definition imgRegex :: "re_item list" where
  "imgRegex = lit_ci ''<img'' @ [Plus (\<lambda>c. c \<noteq> CHR ''>'')] @ lit_ci ''src=''
                @ [One isQuote, Plus (\<lambda>c. \<not> isQuote c), One isQuote,
                   Star (\<lambda>c. c \<noteq> CHR ''>'')] @ lit ''>''"

text \<open>\<^verbatim>\<open>/alt=["']([^"']+)["']/i\<close>: the group is item 5.\<close>

definition altRegex :: "re_item list" where
  "altRegex = lit_ci ''alt='' @ [One isQuote, Plus (\<lambda>c. \<not> isQuote c), One isQuote]"

text \<open>\<^verbatim>\<open>/width=["'](\d+)["']/i\<close>: the group is item 7.\<close>

definition widthRegex :: "re_item list" where
  "widthRegex = lit_ci ''width='' @ [One isQuote, Plus isDigit, One isQuote]"

text \<open>\<^verbatim>\<open>/height=["'](\d+)["']/i\<close>: the group is item 8.\<close>

definition heightRegex :: "re_item list" where
  "heightRegex = lit_ci ''height='' @ [One isQuote, Plus isDigit, One isQuote]"

section \<open>Values and the document tree\<close>

text \<open>An image found in markup: \<^verbatim>\<open>{src, alt, width, height}\<close>.\<close>

datatype image = Image string "string option" "nat option" "nat option"

text \<open>
  The values a field can hold. \<open>EnclosureObj\<close> is \<^verbatim>\<open>{url, type, length}\<close> and \<open>MediaObj\<close> is
  \<^verbatim>\<open>{url, medium, width, height, type}\<close>, each component the result of
  \<^verbatim>\<open>getAttribute\<close> (\<open>None\<close> is \<^verbatim>\<open>null\<close>); \<open>AttrsObj\<close> is the attribute map of the deep
  scan and \<open>ImagesArr\<close> the array of \<^verbatim>\<open>extractImagesFromHTML\<close>.
\<close>

datatype jsval =
    Undefined
  | Null
  | Str string
  | EnclosureObj "string option" "string option" "string option"
  | MediaObj "string option" "string option" "string option" "string option" "string option"
  | AttrsObj "(string \<times> string) list"
  | ImagesArr "image list"

fun truthy :: "jsval \<Rightarrow> bool" where
  "truthy Undefined = False"
| "truthy Null = False"
| "truthy (Str s) = (s \<noteq> [])"
| "truthy (EnclosureObj u t l) = True"
| "truthy (MediaObj u m w h t) = True"
| "truthy (AttrsObj as) = True"
| "truthy (ImagesArr is) = True"

fun typeof :: "jsval \<Rightarrow> string" where
  "typeof Undefined = ''undefined''"
| "typeof Null = ''object''"
| "typeof (Str s) = ''string''"
| "typeof (EnclosureObj u t l) = ''object''"
| "typeof (MediaObj u m w h t) = ''object''"
| "typeof (AttrsObj as) = ''object''"
| "typeof (ImagesArr is) = ''object''"

text \<open>\<^verbatim>\<open>a || b\<close>\<close>

definition or_js :: "jsval \<Rightarrow> jsval \<Rightarrow> jsval" where
  "or_js a b = (if truthy a then a else b)"

definition attr_val :: "string option \<Rightarrow> jsval" where
  "attr_val a = (case a of None \<Rightarrow> Null | Some s \<Rightarrow> Str s)"

definition str_join :: "string \<Rightarrow> string list \<Rightarrow> string" where
  "str_join sep ws = (case ws of [] \<Rightarrow> [] | w # r \<Rightarrow> foldl (\<lambda>acc x. acc @ sep @ x) w r)"

text \<open>The string a value is turned into where the source hands it to a regular expression.\<close>

fun to_string :: "jsval \<Rightarrow> string" where
  "to_string Undefined = ''undefined''"
| "to_string Null = ''null''"
| "to_string (Str s) = s"
| "to_string (EnclosureObj u t l) = ''[object Object]''"
| "to_string (MediaObj u m w h t) = ''[object Object]''"
| "to_string (AttrsObj as) = ''[object Object]''"
| "to_string (ImagesArr is) = str_join '','' (map (\<lambda>i. ''[object Object]'') is)"

type_synonym fields = "(string \<times> jsval) list"

definition get_prop :: "(string \<times> jsval) list \<Rightarrow> string \<Rightarrow> jsval" where
  "get_prop obj k = (case map_of obj k of Some v \<Rightarrow> v | None \<Rightarrow> Undefined)"

text \<open>
  The members every object literal inherits. Reading one of these keys from an object
  that has no such key of its own gives a function or an object, which is truthy. The
  deep scan reads \<^verbatim>\<open>fields[tagName]\<close> for arbitrary tag names; every other read of the
  source uses a fixed field name or an \<^verbatim>\<open>auto_\<close> name, none of which is inherited.
\<close>

definition inheritedKeys :: "string list" where
  "inheritedKeys = [''constructor'', ''__proto__'', ''toString'', ''valueOf'',
     ''hasOwnProperty'', ''isPrototypeOf'', ''propertyIsEnumerable'', ''toLocaleString'',
     ''__defineGetter__'', ''__defineSetter__'', ''__lookupGetter__'', ''__lookupSetter__'']"

definition prop_truthy :: "(string \<times> jsval) list \<Rightarrow> string \<Rightarrow> bool" where
  "prop_truthy obj k =
     (case map_of obj k of Some v \<Rightarrow> truthy v | None \<Rightarrow> k \<in> set inheritedKeys)"

text \<open>Assigning a string to the key \<^verbatim>\<open>__proto__\<close> of an object literal adds no key.\<close>

definition set_str_prop :: "string \<Rightarrow> string \<Rightarrow> (string \<times> string) list \<Rightarrow> (string \<times> string) list"
  where
  "set_str_prop k v obj = (if k = ''__proto__'' then obj else AList.update k v obj)"

subsection \<open>The parsed document\<close>

text \<open>
  The tree \<^verbatim>\<open>DOMParser.parseFromString(xml, "text/xml")\<close> returns: an element has a
  namespace prefix (empty when it has none), a local name, its attributes (qualified
  name and value, the \<^verbatim>\<open>xmlns:\<close> declarations among them) and its child nodes.
\<close>

datatype xml = Element string string "(string \<times> string) list" "xml list" | Text string

fun tagName :: "xml \<Rightarrow> string" where
  "tagName (Element p n as cs) = (if p = [] then n else p @ '':'' @ n)"
| "tagName (Text s) = []"

fun localName :: "xml \<Rightarrow> string" where
  "localName (Element p n as cs) = n"
| "localName (Text s) = []"

fun attributes :: "xml \<Rightarrow> (string \<times> string) list" where
  "attributes (Element p n as cs) = as"
| "attributes (Text s) = []"

fun isElement :: "xml \<Rightarrow> bool" where
  "isElement (Element p n as cs) = True"
| "isElement (Text s) = False"

fun children :: "xml \<Rightarrow> xml list" where
  "children (Element p n as cs) = filter isElement cs"
| "children (Text s) = []"

definition getAttribute :: "xml \<Rightarrow> string \<Rightarrow> string option" where
  "getAttribute e a = map_of (attributes e) a"

fun textContent :: "xml \<Rightarrow> string" where
  "textContent (Text s) = s"
| "textContent (Element p n as cs) = concat (map textContent cs)"

text \<open>An element and the elements below it, in document order.\<close>

fun elements :: "xml \<Rightarrow> xml list" where
  "elements (Text s) = []"
| "elements (Element p n as cs) = Element p n as cs # concat (map elements cs)"

fun descendants :: "xml \<Rightarrow> xml list" where
  "descendants (Text s) = []"
| "descendants (Element p n as cs) = concat (map elements cs)"

text \<open>
  A compound selector of the source: a type selector and the attribute values it asks
  for. A selector is a list of alternatives. The parser is namespace-aware and a query
  cannot declare a namespace, so a type selector is compared with the local name of an
  element, whatever its prefix (\<^verbatim>\<open>*\<close> matches every element); names are compared case by
  case, as in every XML document. A query on an element searches the elements below it, a
  query on the document searches all its elements, both in document order.
\<close>

datatype simple_sel = TypeSel string "(string \<times> string) list"

fun sel_matches :: "simple_sel \<Rightarrow> xml \<Rightarrow> bool" where
  "sel_matches (TypeSel n conds) (Element p l as cs) =
     ((n = ''*'' \<or> l = n) \<and> list_all (\<lambda>(a, v). map_of as a = Some v) conds)"
| "sel_matches (TypeSel n conds) (Text s) = False"

definition matches :: "simple_sel list \<Rightarrow> xml \<Rightarrow> bool" where
  "matches sels e = list_ex (\<lambda>s. sel_matches s e) sels"

definition bs :: char where
  "bs = CHR 0x5C"

text \<open>A selector text without attribute parts: alternatives are separated by commas and a
  backslash escapes the character after it.\<close>

definition css :: "string \<Rightarrow> simple_sel list" where
  "css s = map (\<lambda>w. TypeSel (filter (\<lambda>c. c \<noteq> bs) (trim w)) []) (str_split CHR '','' s)"

definition querySelector :: "xml \<Rightarrow> simple_sel list \<Rightarrow> xml option" where
  "querySelector e sels = find (matches sels) (descendants e)"

definition querySelectorAll :: "xml \<Rightarrow> simple_sel list \<Rightarrow> xml list" where
  "querySelectorAll e sels = filter (matches sels) (descendants e)"

record document =
  documentElement :: "xml option"
  characterSet :: "string option"

definition doc_elements :: "document \<Rightarrow> xml list" where
  "doc_elements doc = (case documentElement doc of None \<Rightarrow> [] | Some r \<Rightarrow> elements r)"

definition doc_querySelector :: "document \<Rightarrow> simple_sel list \<Rightarrow> xml option" where
  "doc_querySelector doc sels = find (matches sels) (doc_elements doc)"

definition doc_querySelectorAll :: "document \<Rightarrow> simple_sel list \<Rightarrow> xml list" where
  "doc_querySelectorAll doc sels = filter (matches sels) (doc_elements doc)"

section \<open>Field extraction\<close>

definition extractImagesFromHTML :: "string \<Rightarrow> image list" where
  "extractImagesFromHTML html =
     map (\<lambda>ms.
            let imgTag = concat ms;
                src = ms ! 10;
                altMatch = re_search altRegex imgTag;
                widthMatch = re_search widthRegex imgTag;
                heightMatch = re_search heightRegex imgTag
            in Image src
                 (case altMatch of Some am \<Rightarrow> Some (am ! 5) | None \<Rightarrow> None)
                 (case widthMatch of Some wm \<Rightarrow> Some (parseInt (wm ! 7)) | None \<Rightarrow> None)
                 (case heightMatch of Some hm \<Rightarrow> Some (parseInt (hm ! 8)) | None \<Rightarrow> None))
         (re_exec_all imgRegex html)"

definition standardFields :: "string list" where
  "standardFields = [''title'', ''link'', ''description'', ''pubDate'', ''published'',
     ''updated'', ''summary'', ''content'', ''author'', ''creator'', ''category'', ''guid'',
     ''id'', ''comments'', ''source'']"

definition namespaceElements :: "string list" where
  "namespaceElements =
     [''content'' @ [bs] @ '':encoded, content'',
      ''dc'' @ [bs] @ '':creator, creator'',
      ''dc'' @ [bs] @ '':date, date'',
      ''media'' @ [bs] @ '':content, media'',
      ''media'' @ [bs] @ '':thumbnail'',
      ''enclosure'',
      ''itunes'' @ [bs] @ '':image'',
      ''itunes'' @ [bs] @ '':summary'',
      ''itunes'' @ [bs] @ '':subtitle'']"

text \<open>The body of \<^verbatim>\<open>standardFields.forEach\<close>.\<close>

definition standardStep :: "xml \<Rightarrow> fields \<Rightarrow> string \<Rightarrow> fields" where
  "standardStep item flds fieldName =
     (case querySelector item (css fieldName) of
        Some element \<Rightarrow> AList.update fieldName (Str (trim (textContent element))) flds
      | None \<Rightarrow> flds)"

text \<open>The link, re-resolved: \<^verbatim>\<open>getAttribute("href") || textContent\<close>, and the \<^verbatim>\<open>rel\<close> and
  \<^verbatim>\<open>type\<close> attributes.\<close>

definition linkStep :: "xml \<Rightarrow> fields \<Rightarrow> fields" where
  "linkStep item flds =
     (case querySelector item (css ''link'') of
        Some linkEl \<Rightarrow>
          AList.update ''link_type'' (attr_val (getAttribute linkEl ''type''))
            (AList.update ''link_rel'' (attr_val (getAttribute linkEl ''rel''))
               (AList.update ''link''
                  (or_js (attr_val (getAttribute linkEl ''href'')) (Str (textContent linkEl)))
                  flds))
      | None \<Rightarrow> flds)"

text \<open>\<^verbatim>\<open>selector.replace("\\:", "_").split(",")[0]\<close>, where the pattern is a backslash and
  a colon.\<close>

definition selectorFieldName :: "string \<Rightarrow> string" where
  "selectorFieldName selector =
     (case str_split CHR '','' (str_replace selector (bs # '':'') ''_'') of
        w # ws \<Rightarrow> w
      | [] \<Rightarrow> [])"

text \<open>The body of \<^verbatim>\<open>namespaceElements.forEach\<close>.\<close>

definition namespaceStep :: "xml \<Rightarrow> fields \<Rightarrow> string \<Rightarrow> fields" where
  "namespaceStep item flds selector =
     (case querySelector item (css selector) of
        Some element \<Rightarrow>
          (let fieldName = selectorFieldName selector
           in if toLowerCase (tagName element) = ''enclosure'' then
                AList.update fieldName
                  (EnclosureObj (getAttribute element ''url'') (getAttribute element ''type'')
                     (getAttribute element ''length''))
                  flds
              else if str_includes (toLowerCase (tagName element)) ''media'' then
                AList.update fieldName
                  (MediaObj (getAttribute element ''url'') (getAttribute element ''medium'')
                     (getAttribute element ''width'') (getAttribute element ''height'')
                     (getAttribute element ''type''))
                  flds
              else
                AList.update fieldName
                  (or_js (Str (trim (textContent element)))
                     (attr_val (getAttribute element ''url'')))
                  flds)
      | None \<Rightarrow> flds)"

text \<open>The body of the deep scan's \<^verbatim>\<open>allElements.forEach\<close>.\<close>

definition deepStep :: "fields \<Rightarrow> xml \<Rightarrow> fields" where
  "deepStep flds el =
     (let tag = toLowerCase (tagName el) in
      if \<not> prop_truthy flds tag \<and> trim (textContent el) \<noteq> [] then
        (if children el = [] then
           (let flds1 = AList.update (''auto_'' @ tag) (Str (trim (textContent el))) flds
            in if attributes el \<noteq> [] then
                 AList.update (''auto_'' @ tag @ ''_attrs'')
                   (AttrsObj (foldl (\<lambda>attrs (n, v). set_str_prop n v attrs) [] (attributes el)))
                   flds1
               else flds1)
         else flds)
      else flds)"

text \<open>The image scan at the end of \<^verbatim>\<open>extractAllFields\<close>.\<close>

definition imageStep :: "fields \<Rightarrow> fields" where
  "imageStep flds =
     (if truthy (get_prop flds ''description'') \<or> truthy (get_prop flds ''content'')
         \<or> truthy (get_prop flds ''content_encoded'') then
        (let contentToScan =
               or_js (or_js (get_prop flds ''content_encoded'') (get_prop flds ''content''))
                 (get_prop flds ''description'');
             images = extractImagesFromHTML (to_string contentToScan)
         in if length images > 0 then AList.update ''extracted_images'' (ImagesArr images) flds
            else flds)
      else flds)"

definition extractAllFields :: "xml \<Rightarrow> bool \<Rightarrow> fields" where
  "extractAllFields item deepScan =
     (let flds1 = foldl (standardStep item) [] standardFields;
          flds2 = linkStep item flds1;
          flds3 = foldl (namespaceStep item) flds2 namespaceElements;
          flds4 = (if deepScan then foldl deepStep flds3 (querySelectorAll item (css ''*''))
                     else flds3)
      in imageStep flds4)"

section \<open>The platform\<close>

text \<open>
  What the source takes from its host and not from this repository: the HTTP request
  function of the backend, the XML parser, the date parser behind \<^verbatim>\<open>new Date(str)\<close>, the
  clock and the stack trace an error is created with. The analyzer is a function of
  these; nothing is assumed about them.
\<close>

datatype exn = Exn string "string option"

fun error_message :: "exn \<Rightarrow> string" where
  "error_message (Exn m s) = m"

fun error_stack :: "exn \<Rightarrow> string option" where
  "error_stack (Exn m s) = s"

record response =
  success :: bool
  status :: "nat option"
  body :: string

record platform =
  http_request :: "string \<Rightarrow> exn + response"
  parseFromString :: "string \<Rightarrow> document"
  date_parses :: "string \<Rightarrow> bool"
  now_iso :: string
  stack_of :: "string \<Rightarrow> string option"

text \<open>\<^verbatim>\<open>new Error(msg)\<close>\<close>

definition new_Error :: "platform \<Rightarrow> string \<Rightarrow> exn" where
  "new_Error pf msg = Exn msg (stack_of pf msg)"

section \<open>Pattern analysis\<close>

record pattern =
  types :: "string list"
  formats :: "string list"
  hasHTML :: bool
  hasURL :: bool
  hasDate :: bool
  avgLength :: rat
  samples :: nat

text \<open>\<^verbatim>\<open>Set.add\<close>: a set keeps its elements in insertion order.\<close>

definition set_add :: "'a \<Rightarrow> 'a list \<Rightarrow> 'a list" where
  "set_add x xs = (if x \<in> set xs then xs else xs @ [x])"

definition isValidDate :: "platform \<Rightarrow> string \<Rightarrow> bool" where
  "isValidDate pf str = date_parses pf str"

definition newPattern :: pattern where
  "newPattern = \<lparr>types = [], formats = [], hasHTML = False, hasURL = False,
                  hasDate = False, avgLength = 0, samples = 0\<rparr>"

definition analyzeFieldPattern :: "platform \<Rightarrow> jsval \<Rightarrow> pattern option \<Rightarrow> pattern" where
  "analyzeFieldPattern pf v existingPattern =
     (let pattern = (case existingPattern of Some p \<Rightarrow> p | None \<Rightarrow> newPattern);
          pattern1 =
            (if typeof v = ''string'' then
               (let s = to_string v;
                    p1 = pattern\<lparr>types := set_add ''string'' (types pattern)\<rparr>;
                    p2 = (if re_test htmlRegex s
                          then p1\<lparr>hasHTML := True, formats := set_add ''html'' (formats p1)\<rparr>
                          else p1);
                    p3 = (if re_test urlRegex s
                          then p2\<lparr>hasURL := True, formats := set_add ''url'' (formats p2)\<rparr>
                          else p2);
                    p4 = (if isValidDate pf s
                          then p3\<lparr>hasDate := True, formats := set_add ''date'' (formats p3)\<rparr>
                          else p3)
                in p4\<lparr>avgLength :=
                        (avgLength p4 * of_nat (samples p4) + of_nat (length s))
                          / (of_nat (samples p4) + 1)\<rparr>)
             else if typeof v = ''object'' then
               pattern\<lparr>types := set_add ''object'' (types pattern),
                        formats := set_add ''structured'' (formats pattern)\<rparr>
             else pattern)
      in pattern1\<lparr>samples := Suc (samples pattern1)\<rparr>)"

section \<open>Feed structure\<close>

definition detectFeedType :: "document \<Rightarrow> string" where
  "detectFeedType doc =
     (case doc_querySelector doc (css ''rss'') of
        Some rss \<Rightarrow>
          ''rss'' @ (case getAttribute rss ''version'' of
                       Some version \<Rightarrow> (if version \<noteq> [] then version else ''2.0'')
                     | None \<Rightarrow> ''2.0'')
      | None \<Rightarrow>
          (if doc_querySelector doc (css ''feed'') \<noteq> None then ''atom''
           else if doc_querySelector doc (css (''rdf'' @ [bs] @ '':RDF, RDF'')) \<noteq> None
           then ''rss1.0''
           else ''unknown''))"

text \<open>\<^verbatim>\<open>e?.textContent\<close> and \<^verbatim>\<open>e?.getAttribute(a)\<close> on the result of a query.\<close>

definition opt_text :: "xml option \<Rightarrow> jsval" where
  "opt_text e = (case e of Some x \<Rightarrow> Str (textContent x) | None \<Rightarrow> Undefined)"

definition opt_attr :: "xml option \<Rightarrow> string \<Rightarrow> jsval" where
  "opt_attr e a = (case e of Some x \<Rightarrow> attr_val (getAttribute x a) | None \<Rightarrow> Undefined)"

definition extractChannelInfo :: "document \<Rightarrow> string \<Rightarrow> (string \<times> jsval) list" where
  "extractChannelInfo doc feedType =
     (if feedType = ''atom'' then
        (case doc_querySelector doc (css ''feed'') of
           Some feed \<Rightarrow>
             [(''title'', opt_text (querySelector feed (css ''title''))),
              (''subtitle'', opt_text (querySelector feed (css ''subtitle''))),
              (''updated'', opt_text (querySelector feed (css ''updated''))),
              (''id'', opt_text (querySelector feed (css ''id''))),
              (''link'',
                 or_js (opt_attr (querySelector feed [TypeSel ''link'' [(''rel'', ''alternate'')]])
                          ''href'')
                   (opt_attr (querySelector feed (css ''link'')) ''href''))]
         | None \<Rightarrow> [])
      else
        (case doc_querySelector doc (css ''channel'') of
           Some channel \<Rightarrow>
             [(''title'', opt_text (querySelector channel (css ''title''))),
              (''description'', opt_text (querySelector channel (css ''description''))),
              (''link'', opt_text (querySelector channel (css ''link''))),
              (''language'', opt_text (querySelector channel (css ''language''))),
              (''lastBuildDate'', opt_text (querySelector channel (css ''lastBuildDate''))),
              (''pubDate'', opt_text (querySelector channel (css ''pubDate'')))]
         | None \<Rightarrow> []))"

definition extractNamespaces :: "document \<Rightarrow> (string \<times> string) list" where
  "extractNamespaces doc =
     (case documentElement doc of
        Some rootEl \<Rightarrow>
          foldl (\<lambda>namespaces (name, v).
                   if startsWith name ''xmlns:''
                   then set_str_prop (str_replace name ''xmlns:'' []) v namespaces
                   else namespaces)
            [] (attributes rootEl)
      | None \<Rightarrow> [])"

record item_analysis =
  index :: nat
  item_fields :: fields
  fieldCount :: nat

text \<open>The variables the sampling loop of \<^verbatim>\<open>analyzeFeedStructure\<close> updates.\<close>

record loop_state =
  itemAnalysis :: "item_analysis list"
  allFields :: "string list"
  fieldOccurrences :: "(string \<times> nat) list"
  samplesSoFar :: "(string \<times> jsval list) list"
  patternsSoFar :: "(string \<times> pattern) list"

text \<open>The body of \<^verbatim>\<open>Object.keys(itemFields).forEach\<close>.\<close>

definition trackField :: "platform \<Rightarrow> bool \<Rightarrow> fields \<Rightarrow> loop_state \<Rightarrow> string \<Rightarrow> loop_state"
  where
  "trackField pf deepScan itemFields st field =
     (let v = get_prop itemFields field;
          st1 = st\<lparr>allFields := set_add field (allFields st)\<rparr>;
          st2 = st1\<lparr>fieldOccurrences :=
                      AList.update field
                        ((case map_of (fieldOccurrences st1) field of Some c \<Rightarrow> c | None \<Rightarrow> 0) + 1)
                        (fieldOccurrences st1)\<rparr>;
          st3 = (if map_of (samplesSoFar st2) field = None
                 then st2\<lparr>samplesSoFar := AList.update field [] (samplesSoFar st2)\<rparr>
                 else st2);
          st4 = (case map_of (samplesSoFar st3) field of
                   Some vs \<Rightarrow>
                     (if length vs < 3 \<and> truthy v
                      then st3\<lparr>samplesSoFar := AList.update field (vs @ [v]) (samplesSoFar st3)\<rparr>
                      else st3)
                 | None \<Rightarrow> st3)
      in if deepScan \<and> truthy v
         then st4\<lparr>patternsSoFar :=
                     AList.update field
                       (analyzeFieldPattern pf v (map_of (patternsSoFar st4) field))
                       (patternsSoFar st4)\<rparr>
         else st4)"

text \<open>One round of the sampling loop, for the item at index \<open>i\<close>.\<close>

definition itemStep :: "platform \<Rightarrow> bool \<Rightarrow> nat \<Rightarrow> xml \<Rightarrow> loop_state \<Rightarrow> loop_state" where
  "itemStep pf deepScan i item st =
     (let itemFields = extractAllFields item deepScan;
          st1 = foldl (trackField pf deepScan itemFields) st (map fst itemFields)
      in st1\<lparr>itemAnalysis :=
                itemAnalysis st1
                  @ [\<lparr>index = i, item_fields = itemFields, fieldCount = length itemFields\<rparr>]\<rparr>)"

text \<open>
  \<^verbatim>\<open>for (let i = 0; i < samplesToAnalyze; i++)\<close>. Reading \<^verbatim>\<open>items[i]\<close> past the end gives
  \<^verbatim>\<open>undefined\<close>, on which \<^verbatim>\<open>extractAllFields\<close> throws a \<^verbatim>\<open>TypeError\<close>.
\<close>

function sampleLoop ::
  "platform \<Rightarrow> bool \<Rightarrow> xml list \<Rightarrow> rat \<Rightarrow> nat \<Rightarrow> loop_state \<Rightarrow> exn + loop_state" where
  "sampleLoop pf deepScan items samplesToAnalyze i st =
     (if of_nat i < samplesToAnalyze then
        (if i < length items
         then sampleLoop pf deepScan items samplesToAnalyze (Suc i)
                (itemStep pf deepScan i (items ! i) st)
         else Inl (new_Error pf ''Cannot read properties of undefined''))
      else Inr st)"
  by pat_completeness auto
termination
  by (relation "measure (\<lambda>(pf, deepScan, items, samplesToAnalyze, i, st). length items - i)") auto

declare sampleLoop.simps [simp del]

record analysis =
  feedType :: string
  channelInfo :: "(string \<times> jsval) list"
  itemCount :: nat
  samplesAnalyzed :: rat
  uniqueFields :: "string list"
  fieldReliability :: "(string \<times> rat) list"
  fieldSamples :: "(string \<times> jsval list) list"
  fieldPatterns :: "(string \<times> pattern) list"
  items :: "item_analysis list"
  namespaces :: "(string \<times> string) list"
  encoding :: string

definition initState :: loop_state where
  "initState = \<lparr>itemAnalysis = [], allFields = [], fieldOccurrences = [],
                  samplesSoFar = [], patternsSoFar = []\<rparr>"

text \<open>The reliability of a field: \<^verbatim>\<open>(fieldOccurrences[field] / samplesToAnalyze) * 100\<close>.
  Every field of \<^verbatim>\<open>allFields\<close> has a count (\<open>allFields_counted\<close> below).\<close>

definition reliabilityOf :: "loop_state \<Rightarrow> rat \<Rightarrow> string \<Rightarrow> rat" where
  "reliabilityOf st samplesToAnalyze field =
     (case map_of (fieldOccurrences st) field of
        Some c \<Rightarrow> (of_nat c / samplesToAnalyze) * 100
      | None \<Rightarrow> 0)"

definition analyzeFeedStructure :: "platform \<Rightarrow> string \<Rightarrow> rat \<Rightarrow> bool \<Rightarrow> exn + analysis" where
  "analyzeFeedStructure pf xmlContent sampleSize deepScan =
     (let doc = parseFromString pf xmlContent in
      case doc_querySelector doc (css ''parsererror'') of
        Some parseError \<Rightarrow> Inl (new_Error pf (''Invalid XML: '' @ textContent parseError))
      | None \<Rightarrow>
          (let feedType = detectFeedType doc;
               channelInfo = extractChannelInfo doc feedType;
               items = doc_querySelectorAll doc
                         (css (if feedType = ''atom'' then ''entry'' else ''item''));
               itemCount = length items;
               samplesToAnalyze = min sampleSize (of_nat itemCount)
           in case sampleLoop pf deepScan items samplesToAnalyze 0 initState of
                Inl e \<Rightarrow> Inl e
              | Inr st \<Rightarrow>
                  Inr \<lparr>feedType = feedType,
                       channelInfo = channelInfo,
                       itemCount = itemCount,
                       samplesAnalyzed = samplesToAnalyze,
                       uniqueFields = allFields st,
                       fieldReliability =
                         map (\<lambda>field. (field, reliabilityOf st samplesToAnalyze field))
                           (allFields st),
                       fieldSamples = samplesSoFar st,
                       fieldPatterns = patternsSoFar st,
                       items = itemAnalysis st,
                       namespaces = extractNamespaces doc,
                       encoding = (case characterSet doc of
                                     Some cs \<Rightarrow> (if cs \<noteq> [] then cs else ''UTF-8'')
                                   | None \<Rightarrow> ''UTF-8'')\<rparr>))"

section \<open>Mapping recommendation\<close>

text \<open>Comparing a number that may be \<^verbatim>\<open>undefined\<close> (\<open>None\<close>) with a number: every comparison
  with \<^verbatim>\<open>undefined\<close> is false.\<close>

definition ge_num :: "rat option \<Rightarrow> rat \<Rightarrow> bool" where
  "ge_num x y = (case x of Some r \<Rightarrow> r \<ge> y | None \<Rightarrow> False)"

definition gt_num :: "rat option \<Rightarrow> rat \<Rightarrow> bool" where
  "gt_num x y = (case x of Some r \<Rightarrow> r > y | None \<Rightarrow> False)"

definition lt_num :: "rat option \<Rightarrow> rat \<Rightarrow> bool" where
  "lt_num x y = (case x of Some r \<Rightarrow> r < y | None \<Rightarrow> False)"

text \<open>The first loop of \<^verbatim>\<open>findBestField\<close>.\<close>

fun firstMeeting :: "string list \<Rightarrow> (string \<times> rat) list \<Rightarrow> rat \<Rightarrow> string option" where
  "firstMeeting [] reliability threshold = None"
| "firstMeeting (field # candidates) reliability threshold =
     (if ge_num (map_of reliability field) threshold then Some field
      else firstMeeting candidates reliability threshold)"

text \<open>The second loop, with its variables \<^verbatim>\<open>best\<close> and \<^verbatim>\<open>bestScore\<close>.\<close>

fun bestLoop ::
  "string list \<Rightarrow> (string \<times> rat) list \<Rightarrow> string option \<Rightarrow> rat \<Rightarrow> string option" where
  "bestLoop [] reliability best bestScore = best"
| "bestLoop (field # candidates) reliability best bestScore =
     (case map_of reliability field of
        Some r \<Rightarrow>
          (if r > bestScore then bestLoop candidates reliability (Some field) r
           else bestLoop candidates reliability best bestScore)
      | None \<Rightarrow> bestLoop candidates reliability best bestScore)"

definition findBestField :: "string list \<Rightarrow> (string \<times> rat) list \<Rightarrow> rat \<Rightarrow> string option" where
  "findBestField candidates reliability threshold =
     (case firstMeeting candidates reliability threshold of
        Some field \<Rightarrow> Some field
      | None \<Rightarrow> bestLoop candidates reliability None 0)"

record image_candidate =
  source :: string
  imageType :: string
  reliability :: rat

text \<open>\<^verbatim>\<open>if (fieldReliability[src] > bound) imageFields.push({source, type, reliability})\<close>\<close>

definition pushCandidate ::
  "string \<Rightarrow> string \<Rightarrow> rat \<Rightarrow> rat option \<Rightarrow> image_candidate list \<Rightarrow> image_candidate list" where
  "pushCandidate src ty bound r imageFields =
     (case r of
        Some x \<Rightarrow>
          (if x > bound
           then imageFields @ [\<lparr>source = src, imageType = ty, reliability = x\<rparr>]
           else imageFields)
      | None \<Rightarrow> imageFields)"

text \<open>\<^verbatim>\<open>sample?.type\<close>, when it is a string.\<close>

fun sample_type :: "jsval \<Rightarrow> string option" where
  "sample_type (EnclosureObj u t l) = t"
| "sample_type (MediaObj u m w h t) = t"
| "sample_type (AttrsObj as) = map_of as ''type''"
| "sample_type Undefined = None"
| "sample_type Null = None"
| "sample_type (Str s) = None"
| "sample_type (ImagesArr is) = None"

text \<open>\<^verbatim>\<open>fieldSamples[field]?.[0]\<close>\<close>

definition firstSample :: "(string \<times> jsval list) list \<Rightarrow> string \<Rightarrow> jsval" where
  "firstSample fsamples field =
     (case map_of fsamples field of Some (v # vs) \<Rightarrow> v | Some [] \<Rightarrow> Undefined | None \<Rightarrow> Undefined)"

text \<open>The candidates \<^verbatim>\<open>findImageMapping\<close> collects, in the order it pushes them.\<close>

definition imageFields :: "analysis \<Rightarrow> image_candidate list" where
  "imageFields a =
     (let fr = map_of (fieldReliability a);
          fields1 = pushCandidate ''media_content'' ''media'' 50 (fr ''media_content'') [];
          fields2 = pushCandidate ''media_thumbnail'' ''media'' 50 (fr ''media_thumbnail'') fields1;
          fields3 =
            (if gt_num (fr ''enclosure'') 50 then
               (let sample = firstSample (fieldSamples a) ''enclosure'' in
                if (case sample_type sample of Some t \<Rightarrow> startsWith t ''image'' | None \<Rightarrow> False)
                then pushCandidate ''enclosure'' ''enclosure'' 50 (fr ''enclosure'') fields2
                else fields2)
             else fields2);
          fields4 = pushCandidate ''extracted_images'' ''html_extraction'' 30
                      (fr ''extracted_images'') fields3
      in pushCandidate ''itunes_image'' ''itunes'' 50 (fr ''itunes_image'') fields4)"

text \<open>\<^verbatim>\<open>imageFields.sort((a, b) => b.reliability - a.reliability)\<close> is a stable sort by falling
  reliability; \<^verbatim>\<open>imageFields[0] || null\<close> is its first element.\<close>

definition findImageMapping :: "analysis \<Rightarrow> image_candidate option" where
  "findImageMapping a =
     (case sort_key (\<lambda>c. - reliability c) (imageFields a) of
        [] \<Rightarrow> None
      | c # cs \<Rightarrow> Some c)"

text \<open>
  The value of a mapping slot: \<^verbatim>\<open>null\<close>, a field name (what \<^verbatim>\<open>findBestField\<close> returns), the
  image candidate, or the \<^verbatim>\<open>{field, reliability, sample}\<close> a field name is replaced with.
\<close>

datatype mapping = MNull | MField string | MImage image_candidate | MEnriched string rat jsval

definition of_best :: "string option \<Rightarrow> mapping" where
  "of_best b = (case b of Some f \<Rightarrow> MField f | None \<Rightarrow> MNull)"

text \<open>The body of \<^verbatim>\<open>Object.keys(mappings).forEach\<close>, "add confidence scores".\<close>

fun enrich :: "analysis \<Rightarrow> mapping \<Rightarrow> mapping" where
  "enrich a (MField f) =
     (if f \<noteq> [] then
        MEnriched f
          (case map_of (fieldReliability a) f of Some r \<Rightarrow> r | None \<Rightarrow> 0)
          (or_js (firstSample (fieldSamples a) f) Null)
      else MField f)"
| "enrich a MNull = MNull"
| "enrich a (MImage c) = MImage c"
| "enrich a (MEnriched f r s) = MEnriched f r s"

definition generateFieldMappings :: "analysis \<Rightarrow> (string \<times> mapping) list" where
  "generateFieldMappings a =
     (let mappings0 = [(''title'', MNull), (''link'', MNull), (''description'', MNull),
                       (''date'', MNull), (''image'', MNull), (''author'', MNull),
                       (''category'', MNull), (''content'', MNull)];
          fr = fieldReliability a;
          m1 = AList.update ''title'' (of_best (findBestField [''title'', ''auto_title''] fr 90))
                 mappings0;
          m2 = AList.update ''link''
                 (of_best (findBestField [''link'', ''guid'', ''id'', ''auto_link''] fr 90)) m1;
          m3 = AList.update ''description''
                 (of_best (findBestField [''description'', ''summary'', ''content'',
                    ''content_encoded'', ''auto_description''] fr 70)) m2;
          m4 = AList.update ''content''
                 (of_best (findBestField [''content_encoded'', ''content'', ''description''] fr 50))
                 m3;
          m5 = AList.update ''date''
                 (of_best (findBestField [''pubDate'', ''published'', ''updated'', ''dc_date'',
                    ''auto_pubdate''] fr 70)) m4;
          m6 = AList.update ''image''
                 (case findImageMapping a of Some c \<Rightarrow> MImage c | None \<Rightarrow> MNull) m5;
          m7 = AList.update ''author''
                 (of_best (findBestField [''author'', ''dc_creator'', ''creator'', ''auto_author'']
                    fr 30)) m6;
          m8 = AList.update ''category''
                 (of_best (findBestField [''category'', ''auto_category'', ''tags''] fr 30)) m7
      in map (\<lambda>(key, v). (key, enrich a v)) m8)"

section \<open>Quality validation\<close>

record finding =
  level :: string
  message :: string
  field :: string
  found_reliability :: "rat option"

record validation =
  isValid :: bool
  issues :: "finding list"
  warnings :: "finding list"
  suggestions :: "finding list"
  qualityScore :: int

definition calculateQualityScore :: "'a list \<Rightarrow> 'b list \<Rightarrow> int" where
  "calculateQualityScore iss warns =
     (let score0 = 100;
          score1 = score0 - int (length iss) * 20;
          score2 = score1 - int (length warns) * 5
      in max 0 (min 100 score2))"

definition requiredFields :: "string list" where
  "requiredFields = [''title'', ''link'', ''description'']"

definition dateFields :: "string list" where
  "dateFields = [''pubDate'', ''published'', ''updated'', ''dc_date'']"

definition imageFamily :: "string list" where
  "imageFamily = [''media_content'', ''media_thumbnail'', ''enclosure'', ''extracted_images'']"

text \<open>The body of \<^verbatim>\<open>requiredFields.forEach\<close>:
  \<^verbatim>\<open>!fieldReliability[field] || fieldReliability[field] < 50\<close>.\<close>

definition requiredStep :: "analysis \<Rightarrow> finding list \<Rightarrow> string \<Rightarrow> finding list" where
  "requiredStep a iss fld =
     (let r = map_of (fieldReliability a) fld in
      if r = None \<or> r = Some 0 \<or> lt_num r 50
      then iss @ [\<lparr>level = ''error'',
                   message = ''Missing or unreliable field: '' @ fld,
                   field = fld,
                   found_reliability = Some (case r of Some x \<Rightarrow> x | None \<Rightarrow> 0)\<rparr>]
      else iss)"

text \<open>The body of \<^verbatim>\<open>Object.entries(fieldPatterns).forEach\<close> in the validator.\<close>

definition titleHtmlStep :: "finding list \<Rightarrow> string \<times> pattern \<Rightarrow> finding list" where
  "titleHtmlStep warns e =
     (if fst e = ''title'' \<and> hasHTML (snd e)
      then warns @ [\<lparr>level = ''warning'', message = ''Title field contains HTML markup'',
                     field = fst e, found_reliability = None\<rparr>]
      else warns)"

definition validateDataQuality :: "analysis \<Rightarrow> validation" where
  "validateDataQuality a =
     (let fr = map_of (fieldReliability a);
          issues1 =
            (if itemCount a = 0
             then [\<lparr>level = ''error'', message = ''Feed contains no items'', field = ''items'',
                    found_reliability = None\<rparr>]
             else []);
          warnings1 =
            (if itemCount a = 0 then []
             else if itemCount a < 5
             then [\<lparr>level = ''warning'',
                    message = ''Feed only contains '' @ show_nat (itemCount a) @ '' items'',
                    field = ''items'', found_reliability = None\<rparr>]
             else []);
          issues2 = foldl (requiredStep a) issues1 requiredFields;
          hasReliableDate = list_ex (\<lambda>fld. gt_num (fr fld) 70) dateFields;
          warnings2 =
            (if \<not> hasReliableDate
             then warnings1 @ [\<lparr>level = ''warning'', message = ''No reliable date field found'',
                                field = ''date'', found_reliability = None\<rparr>]
             else warnings1);
          hasImages = list_ex (\<lambda>fld. gt_num (fr fld) 30) imageFamily;
          suggestions1 =
            (if \<not> hasImages
             then [\<lparr>level = ''info'', message = ''No image sources found in feed'',
                    field = ''image'', found_reliability = None\<rparr>]
             else []);
          warnings3 = foldl titleHtmlStep warnings2 (fieldPatterns a);
          warnings4 =
            (if encoding a \<noteq> ''UTF-8''
             then warnings3 @ [\<lparr>level = ''warning'',
                                message = ''Feed uses '' @ encoding a
                                            @ '' encoding instead of UTF-8'',
                                field = ''encoding'', found_reliability = None\<rparr>]
             else warnings3)
      in \<lparr>isValid = (length issues2 = 0),
          issues = issues2,
          warnings = warnings4,
          suggestions = suggestions1,
          qualityScore = calculateQualityScore issues2 warnings4\<rparr>)"

section \<open>Compatibility\<close>

record processing =
  issue :: string
  solution :: string

text \<open>A recommendation is \<^verbatim>\<open>{namespace, message}\<close> or \<^verbatim>\<open>{field, message}\<close>.\<close>

datatype recommendation = NamespaceRec string string | FieldRec string string

record compatibility =
  isCompatible :: bool
  requiresProcessing :: "processing list"
  recommendations :: "recommendation list"

text \<open>\<^verbatim>\<open>!mapping || (mapping.reliability && mapping.reliability < 50)\<close>\<close>

fun weakMapping :: "mapping \<Rightarrow> bool" where
  "weakMapping MNull = True"
| "weakMapping (MField f) = (f = [])"
| "weakMapping (MImage c) = (reliability c \<noteq> 0 \<and> reliability c < 50)"
| "weakMapping (MEnriched f r s) = (r \<noteq> 0 \<and> r < 50)"

definition supportedNamespaces :: "string list" where
  "supportedNamespaces = [''dc'', ''content'', ''media'', ''atom'']"

definition namespaceStepC :: "recommendation list \<Rightarrow> string \<Rightarrow> recommendation list" where
  "namespaceStepC recs ns =
     (if ns \<notin> set supportedNamespaces
      then recs @ [NamespaceRec ns (''Custom namespace '' @ [CHR 0x27] @ ns @ [CHR 0x27]
                                     @ '' detected - may need special handling'')]
      else recs)"

definition mappingStepC :: "processing list \<Rightarrow> string \<times> mapping \<Rightarrow> processing list" where
  "mappingStepC procs e =
     (if weakMapping (snd e)
      then procs @ [\<lparr>issue = ''Weak mapping for '' @ fst e,
                     solution = ''Consider fallback processing for '' @ fst e\<rparr>]
      else procs)"

definition htmlStepC :: "recommendation list \<Rightarrow> string \<times> pattern \<Rightarrow> recommendation list" where
  "htmlStepC recs e =
     (if hasHTML (snd e) \<and> fst e \<noteq> ''content'' \<and> fst e \<noteq> ''description''
      then recs @ [FieldRec (fst e) ''Contains HTML - consider stripping tags'']
      else recs)"

definition checkCompatibility :: "analysis \<Rightarrow> compatibility" where
  "checkCompatibility a =
     (let c0 = \<lparr>isCompatible = True, requiresProcessing = [], recommendations = []\<rparr>;
          c1 = (if feedType a \<notin> set [''rss2.0'', ''atom'', ''rss1.0'']
                then c0\<lparr>isCompatible := False,
                        requiresProcessing :=
                          requiresProcessing c0
                            @ [\<lparr>issue = ''Unknown feed type'',
                                solution = ''Manual parsing may be required''\<rparr>]\<rparr>
                else c0);
          c2 = (if length (map fst (namespaces a)) > 0
                then c1\<lparr>recommendations :=
                          foldl namespaceStepC (recommendations c1) (map fst (namespaces a))\<rparr>
                else c1);
          mappings = generateFieldMappings a;
          c3 = c2\<lparr>requiresProcessing := foldl mappingStepC (requiresProcessing c2) mappings\<rparr>
      in c3\<lparr>recommendations := foldl htmlStepC (recommendations c3) (fieldPatterns a)\<rparr>)"

section \<open>The entry point\<close>

record inputs =
  feed_url :: "string option"
  sample_size :: "rat option"
  deep_scan :: "bool option"

text \<open>
  The report: \<^verbatim>\<open>{success: true, feed_url, analysis, recommended_mappings, validation,
  compatibility, timestamp}\<close>, the \<^verbatim>\<open>{success: false, error}\<close> of a missing \<^verbatim>\<open>feed_url\<close>, or the
  \<^verbatim>\<open>{success: false, error, details}\<close> of the \<^verbatim>\<open>catch\<close> block (\<open>None\<close> is \<^verbatim>\<open>null\<close>).
\<close>

datatype report =
    SuccessReport string analysis "(string \<times> mapping) list" validation compatibility string
  | RequiredReport string
  | FailureReport string "string option"

text \<open>\<^verbatim>\<open>fetchFeed\<close>: the result, and the URLs it has requested.\<close>

definition fetchFeed :: "platform \<Rightarrow> string \<Rightarrow> (exn + string) \<times> string list" where
  "fetchFeed pf url =
     (case http_request pf url of
        Inl e \<Rightarrow> (Inl e, [url])
      | Inr resp \<Rightarrow>
          (if \<not> success resp
           then (Inl (new_Error pf
                        (''Failed to fetch feed: ''
                           @ (case status resp of
                                Some n \<Rightarrow> (if n \<noteq> 0 then show_nat n else ''Unknown error'')
                              | None \<Rightarrow> ''Unknown error''))),
                 [url])
           else (Inr (body resp), [url])))"

text \<open>The \<^verbatim>\<open>catch\<close> block.\<close>

definition catchError :: "exn \<Rightarrow> report" where
  "catchError e =
     FailureReport
       (if error_message e \<noteq> [] then error_message e else ''Failed to analyze feed'')
       (case error_stack e of Some s \<Rightarrow> (if s \<noteq> [] then Some s else None) | None \<Rightarrow> None)"

text \<open>\<^verbatim>\<open>analyzeRSSFeed\<close>: the report, and the URLs requested on the way.\<close>

definition analyzeRSSFeed :: "platform \<Rightarrow> inputs \<Rightarrow> report \<times> string list" where
  "analyzeRSSFeed pf inp =
     (let sampleSize = (case sample_size inp of Some n \<Rightarrow> n | None \<Rightarrow> 5);
          deepScan = (case deep_scan inp of Some b \<Rightarrow> b | None \<Rightarrow> True)
      in case feed_url inp of
           None \<Rightarrow> (RequiredReport ''feed_url is required'', [])
         | Some url \<Rightarrow>
             (if url = [] then (RequiredReport ''feed_url is required'', [])
              else
                (case fetchFeed pf url of
                   (Inl e, requested) \<Rightarrow> (catchError e, requested)
                 | (Inr feedContent, requested) \<Rightarrow>
                     (case analyzeFeedStructure pf feedContent sampleSize deepScan of
                        Inl e \<Rightarrow> (catchError e, requested)
                      | Inr a \<Rightarrow>
                          (SuccessReport url a (generateFieldMappings a) (validateDataQuality a)
                             (checkCompatibility a) (now_iso pf),
                           requested)))))"

section \<open>Folding observations\<close>


section \<open>Example inputs\<close>

text \<open>A platform whose requests all succeed and whose parser returns the given document;
  no string parses as a date and errors carry no stack trace.\<close>

definition servingPlatform :: "document \<Rightarrow> platform" where
  "servingPlatform doc =
     \<lparr>http_request = (\<lambda>url. Inr \<lparr>success = True, status = Some 200, body = []\<rparr>),
      parseFromString = (\<lambda>xmlContent. doc),
      date_parses = (\<lambda>str. False),
      now_iso = ''1970-01-01T00:00:00.000Z'',
      stack_of = (\<lambda>msg. None)\<rparr>"

definition emptyDocument :: document where
  "emptyDocument = \<lparr>documentElement = None, characterSet = None\<rparr>"

text \<open>An analysis in which \<^verbatim>\<open>media_content\<close> has reliability 60 and \<^verbatim>\<open>enclosure\<close> has
  reliability 80, the first enclosure sample being of type \<^verbatim>\<open>image/jpeg\<close>.\<close>

definition imageExample :: analysis where
  "imageExample =
     \<lparr>feedType = ''rss2.0'', channelInfo = [], itemCount = 5, samplesAnalyzed = 5,
      uniqueFields = [''media_content'', ''enclosure''],
      fieldReliability = [(''media_content'', 60), (''enclosure'', 80)],
      fieldSamples =
        [(''media_content'', [MediaObj (Some ''https://x/1.jpg'') None None None None]),
         (''enclosure'', [EnclosureObj (Some ''https://x/1.jpg'') (Some ''image/jpeg'') None])],
      fieldPatterns = [], items = [], namespaces = [], encoding = ''UTF-8''\<rparr>"

text \<open>A document whose root is none of \<^verbatim>\<open>rss\<close>, \<^verbatim>\<open>feed\<close> and \<^verbatim>\<open>RDF\<close>, with a \<^verbatim>\<open>feed\<close> element
  below the root.\<close>

definition nestedFeedDocument :: document where
  "nestedFeedDocument =
     \<lparr>documentElement = Some (Element [] ''catalog'' [] [Element [] ''feed'' [] []]),
      characterSet = Some ''UTF-8''\<rparr>"

text \<open>\<^verbatim>\<open><rss version="0.91"><channel/></rss>\<close>\<close>

definition oldRssDocument :: document where
  "oldRssDocument =
     \<lparr>documentElement =
        Some (Element [] ''rss'' [(''version'', ''0.91'')] [Element [] ''channel'' [] []]),
      characterSet = Some ''UTF-8''\<rparr>"

text \<open>An Atom entry: \<^verbatim>\<open><entry><link rel="alternate" href="https://x/1"/></entry>\<close>\<close>

definition atomEntry :: xml where
  "atomEntry = Element [] ''entry'' []
     [Element [] ''link'' [(''rel'', ''alternate''), (''href'', ''https://x/1'')] []]"

text \<open>An RSS document with three items, each with a title; the first title holds markup.\<close>

definition threeItemDocument :: document where
  "threeItemDocument =
     \<lparr>documentElement =
        Some (Element [] ''rss'' [(''version'', ''2.0'')]
          [Element [] ''channel'' []
            [Element [] ''item'' [] [Element [] ''title'' [] [Text ''<b>One</b>'']],
             Element [] ''item'' [] [Element [] ''title'' [] [Text ''Two'']],
             Element [] ''item'' [] [Element [] ''title'' [] [Text ''Three'']]]]),
      characterSet = Some ''UTF-8''\<rparr>"

text \<open>\<^verbatim>\<open><rss version="2.0"><channel><title>Empty</title></channel></rss>\<close>: a feed without
  items.\<close>

definition emptyFeedDocument :: document where
  "emptyFeedDocument =
     \<lparr>documentElement =
        Some (Element [] ''rss'' [(''version'', ''2.0'')]
          [Element [] ''channel'' [] [Element [] ''title'' [] [Text ''Empty'']]]),
      characterSet = Some ''UTF-8''\<rparr>"

text \<open>What the parser returns for text that is not well-formed: a document that holds a
  \<^verbatim>\<open>parsererror\<close> element.\<close>

definition brokenDocument :: document where
  "brokenDocument =
     \<lparr>documentElement = Some (Element [] ''parsererror'' [] [Text ''mismatched tag'']),
      characterSet = Some ''UTF-8''\<rparr>"

text \<open>A platform whose requests are all answered with status 404.\<close>

definition failingPlatform :: platform where
  "failingPlatform =
     \<lparr>http_request = (\<lambda>url. Inr \<lparr>success = False, status = Some 404, body = []\<rparr>),
      parseFromString = (\<lambda>xmlContent. emptyFeedDocument),
      date_parses = (\<lambda>str. False),
      now_iso = ''1970-01-01T00:00:00.000Z'',
      stack_of = (\<lambda>msg. Some ''Error: at fetchFeed'')\<rparr>"

definition exampleInputs :: inputs where
  "exampleInputs = \<lparr>feed_url = Some ''https://x/feed'', sample_size = None, deep_scan = None\<rparr>"

text \<open>The analysis of \<open>threeItemDocument\<close> for the sample size 2.5 without deep scan: the
  loop runs for the indices 0, 1 and 2.\<close>

definition overSampledAnalysis :: analysis where
  "overSampledAnalysis =
     \<lparr>feedType = ''rss2.0'',
      channelInfo =
        [(''title'', Str ''<b>One</b>''), (''description'', Undefined), (''link'', Undefined),
         (''language'', Undefined), (''lastBuildDate'', Undefined), (''pubDate'', Undefined)],
      itemCount = 3, samplesAnalyzed = 5 / 2, uniqueFields = [''title''],
      fieldReliability = [(''title'', 120)],
      fieldSamples = [(''title'', [Str ''<b>One</b>'', Str ''Two'', Str ''Three''])],
      fieldPatterns = [],
      items =
        [\<lparr>index = 0, item_fields = [(''title'', Str ''<b>One</b>'')], fieldCount = 1\<rparr>,
         \<lparr>index = 1, item_fields = [(''title'', Str ''Two'')], fieldCount = 1\<rparr>,
         \<lparr>index = 2, item_fields = [(''title'', Str ''Three'')], fieldCount = 1\<rparr>],
      namespaces = [], encoding = ''UTF-8''\<rparr>"

text \<open>\<^verbatim>\<open><rdf:RDF><channel/></rdf:RDF>\<close>\<close>

definition rdfDocument :: document where
  "rdfDocument =
     \<lparr>documentElement = Some (Element ''rdf'' ''RDF'' [] [Element [] ''channel'' [] []]),
      characterSet = Some ''UTF-8''\<rparr>"

text \<open>A platform whose requests all throw.\<close>

definition throwingPlatform :: platform where
  "throwingPlatform =
     \<lparr>http_request = (\<lambda>url. Inl (Exn ''Request timed out'' None)),
      parseFromString = (\<lambda>xmlContent. emptyFeedDocument),
      date_parses = (\<lambda>str. False),
      now_iso = ''1970-01-01T00:00:00.000Z'',
      stack_of = (\<lambda>msg. None)\<rparr>"

text \<open>The analysis of \<open>threeItemDocument\<close> for the sample size 5 without deep scan.\<close>

definition sampledAnalysis :: analysis where
  "sampledAnalysis =
     overSampledAnalysis\<lparr>samplesAnalyzed := 3, fieldReliability := [(''title'', 100)]\<rparr>"

section \<open>Auxiliary notions for the proofs\<close>

text \<open>What one conditional push of \<^verbatim>\<open>findImageMapping\<close> adds to the list, and the test on the
  first enclosure sample.\<close>

definition candidate :: "string \<Rightarrow> string \<Rightarrow> rat \<Rightarrow> rat option \<Rightarrow> image_candidate list" where
  "candidate src ty bound r = pushCandidate src ty bound r []"

definition enclosureTyped :: "analysis \<Rightarrow> bool" where
  "enclosureTyped a =
     (case sample_type (firstSample (fieldSamples a) ''enclosure'') of
        Some t \<Rightarrow> startsWith t ''image''
      | None \<Rightarrow> False)"

text \<open>The local names of the elements of a document.\<close>

definition elementNames :: "document \<Rightarrow> string set" where
  "elementNames doc = localName ` set (doc_elements doc)"

text \<open>The items the sampling loop has gone through when it stops, for a sample count that
  does not exceed the number of items: the loop runs for every index below the count.\<close>

definition sampledState :: "platform \<Rightarrow> bool \<Rightarrow> xml list \<Rightarrow> rat \<Rightarrow> loop_state" where
  "sampledState pf deepScan its samplesToAnalyze =
     foldl (\<lambda>st j. itemStep pf deepScan j (its ! j) st) initState
       [0..<nat \<lceil>samplesToAnalyze\<rceil>]"



section \<open>Basic facts about selectors and documents\<close>

lemma trim_plain:
  "s \<noteq> [] \<Longrightarrow> \<not> isWhiteSpace (hd s) \<Longrightarrow> \<not> isWhiteSpace (last s) \<Longrightarrow> trim s = s"
proof -
  assume a: "s \<noteq> []" "\<not> isWhiteSpace (hd s)" "\<not> isWhiteSpace (last s)"
  then have 1: "dropWhile isWhiteSpace s = s" by (cases s) auto
  from a have "rev s \<noteq> []" "\<not> isWhiteSpace (hd (rev s))" by (auto simp: hd_rev)
  then have "dropWhile isWhiteSpace (rev s) = rev s" by (cases "rev s") auto
  with 1 show ?thesis by (simp add: trim_def)
qed

lemma css_rss: "css ''rss'' = [TypeSel ''rss'' []]"
  by (simp add: css_def trim_plain isWhiteSpace_def bs_def)

lemma css_feed: "css ''feed'' = [TypeSel ''feed'' []]"
  by (simp add: css_def trim_plain isWhiteSpace_def bs_def)

lemma css_rdf: "css (''rdf'' @ [bs] @ '':RDF, RDF'') = [TypeSel ''rdf:RDF'' [], TypeSel ''RDF'' []]"
  by (simp add: css_def trim_def isWhiteSpace_def bs_def)

lemma elements_are_elements: "e \<in> set (elements x) \<Longrightarrow> isElement e"
  by (induction x arbitrary: e) auto

lemma doc_elements_are_elements: "e \<in> set (doc_elements doc) \<Longrightarrow> isElement e"
  by (auto simp: doc_elements_def elements_are_elements split: option.splits)

lemma matches_type:
  "isElement e \<Longrightarrow> n \<noteq> ''*'' \<Longrightarrow> matches [TypeSel n []] e = (localName e = n)"
  by (cases e) (auto simp: matches_def)

lemma matches_type2:
  "isElement e \<Longrightarrow> n \<noteq> ''*'' \<Longrightarrow> m \<noteq> ''*'' \<Longrightarrow>
   matches [TypeSel n [], TypeSel m []] e = (localName e = n \<or> localName e = m)"
  by (cases e) (auto simp: matches_def)

lemma doc_query_None:
  "n \<noteq> ''*'' \<Longrightarrow>
   (doc_querySelector doc [TypeSel n []] = None) = (n \<notin> elementNames doc)"
  by (auto simp: doc_querySelector_def find_None_iff elementNames_def matches_type
      doc_elements_are_elements)

lemma doc_query_None2:
  "n \<noteq> ''*'' \<Longrightarrow> m \<noteq> ''*'' \<Longrightarrow>
   (doc_querySelector doc [TypeSel n [], TypeSel m []] = None)
     = (n \<notin> elementNames doc \<and> m \<notin> elementNames doc)"
  by (auto simp: doc_querySelector_def find_None_iff elementNames_def matches_type2
      doc_elements_are_elements)

lemma doc_query_root:
  "documentElement doc = Some (Element p n as cs) \<Longrightarrow>
   doc_querySelector doc [TypeSel n []] = Some (Element p n as cs)"
  by (simp add: doc_querySelector_def doc_elements_def matches_def)

section \<open>Basic facts about the sampling loop and the entry point\<close>

lemma css_parsererror: "css ''parsererror'' = [TypeSel ''parsererror'' []]"
  by (simp add: css_def trim_plain isWhiteSpace_def bs_def)

lemma below_count: "(of_nat i < (n::rat)) = (i < nat \<lceil>n\<rceil>)"
proof -
  have "(of_nat i < n) = (of_int (int i) < n)" by simp
  also have "\<dots> = (int i < \<lceil>n\<rceil>)" by (simp only: less_ceiling_iff)
  also have "\<dots> = (i < nat \<lceil>n\<rceil>)" by linarith
  finally show ?thesis .
qed

lemma count_within: "(n::rat) \<le> of_nat m \<Longrightarrow> nat \<lceil>n\<rceil> \<le> m"
proof -
  assume "n \<le> of_nat m"
  then have "\<lceil>n\<rceil> \<le> \<lceil>(of_nat m :: rat)\<rceil>" by (rule ceiling_mono)
  then show ?thesis by simp
qed

lemma sampleLoop_fold:
  "n \<le> of_nat (length its) \<Longrightarrow>
   sampleLoop pf d its n i st
     = Inr (foldl (\<lambda>st j. itemStep pf d j (its ! j) st) st [i..<nat \<lceil>n\<rceil>])"
proof (induction pf d its n i st rule: sampleLoop.induct)
  case (1 pf d its n i st)
  show ?case
  proof (cases "of_nat i < n")
    case True
    then have b: "i < nat \<lceil>n\<rceil>" by (simp add: below_count)
    with count_within [OF "1.prems"] have l: "i < length its" by simp
    from b have u: "[i..<nat \<lceil>n\<rceil>] = i # [Suc i..<nat \<lceil>n\<rceil>]" by (simp add: upt_conv_Cons)
    from "1.IH" [OF True l "1.prems"] True l show ?thesis
      by (subst sampleLoop.simps) (simp add: u)
  next
    case False
    then have "\<not> i < nat \<lceil>n\<rceil>" by (simp add: below_count)
    with False show ?thesis by (subst sampleLoop.simps) simp
  qed
qed

lemma sampleLoop_sampled:
  "n \<le> of_nat (length its) \<Longrightarrow> sampleLoop pf d its n 0 initState = Inr (sampledState pf d its n)"
  by (simp add: sampleLoop_fold sampledState_def)

text \<open>What \<^verbatim>\<open>analyzeFeedStructure\<close> returns, by the two outcomes of the parse check.\<close>

lemma analyzeFeedStructure_invalid:
  "doc_querySelector (parseFromString pf x) (css ''parsererror'') = Some e \<Longrightarrow>
   analyzeFeedStructure pf x sampleSize d
     = Inl (new_Error pf (''Invalid XML: '' @ textContent e))"
  by (simp add: analyzeFeedStructure_def)

lemma analyzeFeedStructure_valid:
  assumes "doc_querySelector (parseFromString pf x) (css ''parsererror'') = None"
  shows "\<exists>its. its = doc_querySelectorAll (parseFromString pf x)
                    (css (if detectFeedType (parseFromString pf x) = ''atom''
                          then ''entry'' else ''item''))
          \<and> analyzeFeedStructure pf x sampleSize d
            = Inr \<lparr>feedType = detectFeedType (parseFromString pf x),
                   channelInfo = extractChannelInfo (parseFromString pf x)
                                   (detectFeedType (parseFromString pf x)),
                   itemCount = length its,
                   samplesAnalyzed = min sampleSize (of_nat (length its)),
                   uniqueFields =
                     allFields (sampledState pf d its (min sampleSize (of_nat (length its)))),
                   fieldReliability =
                     map (\<lambda>f. (f, reliabilityOf
                                     (sampledState pf d its (min sampleSize (of_nat (length its))))
                                     (min sampleSize (of_nat (length its))) f))
                       (allFields (sampledState pf d its (min sampleSize (of_nat (length its))))),
                   fieldSamples =
                     samplesSoFar (sampledState pf d its (min sampleSize (of_nat (length its)))),
                   fieldPatterns =
                     patternsSoFar (sampledState pf d its (min sampleSize (of_nat (length its)))),
                   items =
                     itemAnalysis (sampledState pf d its (min sampleSize (of_nat (length its)))),
                   namespaces = extractNamespaces (parseFromString pf x),
                   encoding = (case characterSet (parseFromString pf x) of
                                 Some cs \<Rightarrow> (if cs \<noteq> [] then cs else ''UTF-8'')
                               | None \<Rightarrow> ''UTF-8'')\<rparr>"
proof -
  have "min sampleSize (of_nat (length its)) \<le> of_nat (length its)" for its :: "xml list"
    by simp
  from sampleLoop_sampled [OF this] assms show ?thesis
    by (simp add: analyzeFeedStructure_def Let_def)
qed

lemma trackField_parts:
  "itemAnalysis (trackField pf d itf st f) = itemAnalysis st"
  "allFields (trackField pf d itf st f) = set_add f (allFields st)"
  "fieldOccurrences (trackField pf d itf st f)
     = AList.update f ((case map_of (fieldOccurrences st) f of Some c \<Rightarrow> c | None \<Rightarrow> 0) + 1)
         (fieldOccurrences st)"
  "patternsSoFar (trackField pf False itf st f) = patternsSoFar st"
  by (simp_all add: trackField_def Let_def split: option.splits)

lemma analyzeRSSFeed_success:
  assumes "fst (analyzeRSSFeed pf inp) = SuccessReport u b ms v c t"
  shows "\<exists>content requested.
           feed_url inp = Some u \<and> u \<noteq> [] \<and> fetchFeed pf u = (Inr content, requested)
           \<and> analyzeFeedStructure pf content
                (case sample_size inp of Some n \<Rightarrow> n | None \<Rightarrow> 5)
                (case deep_scan inp of Some d \<Rightarrow> d | None \<Rightarrow> True) = Inr b
           \<and> ms = generateFieldMappings b \<and> v = validateDataQuality b
           \<and> c = checkCompatibility b \<and> t = now_iso pf"
  using assms
  by (auto simp: analyzeRSSFeed_def Let_def catchError_def
      split: option.splits if_splits prod.splits sum.splits)

lemma validation_parts:
  "isValid (validateDataQuality a) = (length (issues (validateDataQuality a)) = 0)"
  "qualityScore (validateDataQuality a)
     = calculateQualityScore (issues (validateDataQuality a)) (warnings (validateDataQuality a))"
  by (simp_all only: validateDataQuality_def Let_def validation.simps)

lemma fetchFeed_ok:
  "http_request pf url = Inr resp \<Longrightarrow> success resp \<Longrightarrow>
   fetchFeed pf url = (Inr (body resp), [url])"
  by (simp add: fetchFeed_def)

lemma analyzeRSSFeed_fetched:
  assumes "feed_url inp = Some url" "url \<noteq> []" "fetchFeed pf url = (Inr content, requested)"
  shows "analyzeRSSFeed pf inp =
           (case analyzeFeedStructure pf content
                   (case sample_size inp of Some n \<Rightarrow> n | None \<Rightarrow> 5)
                   (case deep_scan inp of Some d \<Rightarrow> d | None \<Rightarrow> True) of
              Inl e \<Rightarrow> (catchError e, requested)
            | Inr a \<Rightarrow>
                (SuccessReport url a (generateFieldMappings a) (validateDataQuality a)
                   (checkCompatibility a) (now_iso pf), requested))"
  using assms by (simp add: analyzeRSSFeed_def Let_def)

lemma fetchFeed_throws:
  "http_request pf url = Inl e \<Longrightarrow> fetchFeed pf url = (Inl e, [url])"
  by (simp add: fetchFeed_def)

lemma fetchFeed_refused:
  "http_request pf url = Inr resp \<Longrightarrow> \<not> success resp \<Longrightarrow>
   fetchFeed pf url =
     (Inl (new_Error pf
             (''Failed to fetch feed: ''
                @ (case status resp of
                     Some n \<Rightarrow> (if n \<noteq> 0 then show_nat n else ''Unknown error'')
                   | None \<Rightarrow> ''Unknown error''))),
      [url])"
  by (simp add: fetchFeed_def)

lemma analyzeRSSFeed_fetch_failed:
  assumes "feed_url inp = Some url" "url \<noteq> []" "fetchFeed pf url = (Inl e, requested)"
  shows "analyzeRSSFeed pf inp = (catchError e, requested)"
  using assms by (simp add: analyzeRSSFeed_def Let_def)

lemma catchError_new:
  "msg \<noteq> [] \<Longrightarrow>
   catchError (new_Error pf msg)
     = FailureReport msg (case stack_of pf msg of
                            Some s \<Rightarrow> (if s \<noteq> [] then Some s else None)
                          | None \<Rightarrow> None)"
  by (simp add: catchError_def new_Error_def)

section \<open>Properties of the image mapping\<close>

lemma sort_key_head:
  "sort_key f xs = y # ys \<Longrightarrow> y \<in> set xs \<and> (\<forall>x\<in>set xs. f y \<le> f x)"
proof -
  assume a: "sort_key f xs = y # ys"
  have "set (sort_key f xs) = set xs" by simp
  with a have m: "y \<in> set xs" by (metis list.set_intros(1))
  have "sorted (map f (sort_key f xs))" by (rule sorted_sort_key)
  with a have "\<forall>x\<in>set ys. f y \<le> f x" by simp
  moreover have "set xs = insert y (set ys)"
    using a by (metis list.simps(15) set_sort)
  ultimately show ?thesis using m by auto
qed

lemma pushCandidate_append:
  "pushCandidate s t b r xs = xs @ candidate s t b r"
  by (simp add: candidate_def pushCandidate_def split: option.splits)

lemma candidate_eq:
  "candidate s t b r =
     (if gt_num r b then [\<lparr>source = s, imageType = t, reliability = the r\<rparr>] else [])"
  by (simp add: candidate_def pushCandidate_def gt_num_def split: option.splits)

lemma imageFields_parts:
  "imageFields a =
     candidate ''media_content'' ''media'' 50 (map_of (fieldReliability a) ''media_content'')
     @ candidate ''media_thumbnail'' ''media'' 50
         (map_of (fieldReliability a) ''media_thumbnail'')
     @ (if enclosureTyped a
        then candidate ''enclosure'' ''enclosure'' 50 (map_of (fieldReliability a) ''enclosure'')
        else [])
     @ candidate ''extracted_images'' ''html_extraction'' 30
         (map_of (fieldReliability a) ''extracted_images'')
     @ candidate ''itunes_image'' ''itunes'' 50 (map_of (fieldReliability a) ''itunes_image'')"
proof -
  have e: "(if gt_num r 50 then (if ty then xs @ candidate s t 50 r else xs) else xs)
             = xs @ (if ty then candidate s t 50 r else [])" for r ty s t xs
    by (simp add: candidate_eq)
  show ?thesis
    unfolding imageFields_def Let_def enclosureTyped_def [symmetric] pushCandidate_append e
    by simp
qed

lemma imageFields_sources:
  "c \<in> set (imageFields a) \<Longrightarrow>
   map_of (fieldReliability a) (source c) = Some (reliability c)"
  unfolding imageFields_parts candidate_eq
  by (auto simp: gt_num_def split: option.splits if_splits)

text \<open>
  Claim C1, as the code has it. In an analysis where \<^verbatim>\<open>media_content\<close> has reliability 60 and
  \<^verbatim>\<open>enclosure\<close> has reliability 80 with a first sample whose type starts with \<^verbatim>\<open>image\<close>, both
  candidates are collected, and \<^verbatim>\<open>findImageMapping\<close> returns a collected candidate of the
  highest reliability: one of reliability at least 80, never \<^verbatim>\<open>media_content\<close>. It is the
  enclosure whenever \<^verbatim>\<open>media_thumbnail\<close> stays below 80 and neither \<^verbatim>\<open>extracted_images\<close> nor
  \<^verbatim>\<open>itunes_image\<close> exceeds 80. The order of collection only decides between candidates of
  equal reliability.
\<close>

theorem image_mapping_by_reliability:
  assumes "map_of (fieldReliability a) ''media_content'' = Some 60"
    and "map_of (fieldReliability a) ''enclosure'' = Some 80"
    and "sample_type (firstSample (fieldSamples a) ''enclosure'') = Some t"
    and "startsWith t ''image''"
  shows "\<lparr>source = ''media_content'', imageType = ''media'', reliability = 60\<rparr>
           \<in> set (imageFields a)
         \<and> \<lparr>source = ''enclosure'', imageType = ''enclosure'', reliability = 80\<rparr>
           \<in> set (imageFields a)
         \<and> (\<exists>c. findImageMapping a = Some c \<and> c \<in> set (imageFields a)
                \<and> (\<forall>d\<in>set (imageFields a). reliability d \<le> reliability c)
                \<and> 80 \<le> reliability c \<and> source c \<noteq> ''media_content'')
         \<and> (\<not> ge_num (map_of (fieldReliability a) ''media_thumbnail'') 80
              \<and> \<not> gt_num (map_of (fieldReliability a) ''extracted_images'') 80
              \<and> \<not> gt_num (map_of (fieldReliability a) ''itunes_image'') 80
            \<longrightarrow> findImageMapping a
                  = Some \<lparr>source = ''enclosure'', imageType = ''enclosure'', reliability = 80\<rparr>)"
proof (intro conjI impI)
  show m: "\<lparr>source = ''media_content'', imageType = ''media'', reliability = 60\<rparr>
           \<in> set (imageFields a)"
    using assms by (simp add: imageFields_parts candidate_eq enclosureTyped_def gt_num_def)
  show e: "\<lparr>source = ''enclosure'', imageType = ''enclosure'', reliability = 80\<rparr>
           \<in> set (imageFields a)"
    using assms by (simp add: imageFields_parts candidate_eq enclosureTyped_def gt_num_def)
  show "\<exists>c. findImageMapping a = Some c \<and> c \<in> set (imageFields a)
                \<and> (\<forall>d\<in>set (imageFields a). reliability d \<le> reliability c)
                \<and> 80 \<le> reliability c \<and> source c \<noteq> ''media_content''"
  proof (cases "sort_key (\<lambda>c. - reliability c) (imageFields a)")
    case Nil
    then have "imageFields a = []" by (metis set_sort set_empty)
    with e show ?thesis by simp
  next
    case (Cons c cs)
    from sort_key_head [OF Cons] have
      c: "c \<in> set (imageFields a)" and
      mx: "\<forall>d\<in>set (imageFields a). reliability d \<le> reliability c"
      by auto
    from mx e have r: "80 \<le> reliability c" by force
    have "source c \<noteq> ''media_content''"
    proof
      assume "source c = ''media_content''"
      with imageFields_sources [OF c] assms(1) have "reliability c = 60" by simp
      with r show False by simp
    qed
    with Cons c mx r show ?thesis by (simp add: findImageMapping_def)
  qed
next
  assume o: "\<not> ge_num (map_of (fieldReliability a) ''media_thumbnail'') 80
              \<and> \<not> gt_num (map_of (fieldReliability a) ''extracted_images'') 80
              \<and> \<not> gt_num (map_of (fieldReliability a) ''itunes_image'') 80"
  show "findImageMapping a
          = Some \<lparr>source = ''enclosure'', imageType = ''enclosure'', reliability = 80\<rparr>"
    using assms o
    by (auto simp: findImageMapping_def imageFields_parts candidate_eq enclosureTyped_def
        gt_num_def ge_num_def split: option.splits)
qed

theorem image_mapping_by_reliability_witness:
  "findImageMapping imageExample
     = Some \<lparr>source = ''enclosure'', imageType = ''enclosure'', reliability = 80\<rparr>
   \<and> \<lparr>source = ''media_content'', imageType = ''media'', reliability = 60\<rparr>
       \<in> set (imageFields imageExample)"
  using image_mapping_by_reliability [of imageExample "''image/jpeg''"]
  by (simp add: imageExample_def firstSample_def startsWith_def ge_num_def gt_num_def)

text \<open>
  The claim as the specification words it, that \<^verbatim>\<open>media_content\<close> is returned because its
  namespace has priority, fails on \<open>imageExample\<close>: the sort by falling reliability puts
  the enclosure first.
\<close>

theorem image_mapping_counterexample:
  "map_of (fieldReliability imageExample) ''media_content'' = Some 60
   \<and> map_of (fieldReliability imageExample) ''enclosure'' = Some 80
   \<and> sample_type (firstSample (fieldSamples imageExample) ''enclosure'') = Some ''image/jpeg''
   \<and> map_option source (findImageMapping imageExample) = Some ''enclosure''
   \<and> map_option source (findImageMapping imageExample) \<noteq> Some ''media_content''"
  by (simp add: imageExample_def findImageMapping_def imageFields_def pushCandidate_def
      firstSample_def gt_num_def startsWith_def)

section \<open>Properties of the mapping recommender\<close>

lemma firstMeeting_first:
  "\<forall>x\<in>set pre. \<not> ge_num (map_of rel x) t \<Longrightarrow> ge_num (map_of rel f) t \<Longrightarrow>
   firstMeeting (pre @ f # post) rel t = Some f"
  by (induction pre) auto

lemma firstMeeting_none:
  "\<forall>x\<in>set cs. \<not> ge_num (map_of rel x) t \<Longrightarrow> firstMeeting cs rel t = None"
  by (induction cs) auto

lemma bestLoop_keep:
  "\<forall>x\<in>set cs. \<not> gt_num (map_of rel x) score \<Longrightarrow>
   bestLoop cs rel best score = best"
  by (induction cs) (auto simp: gt_num_def split: option.splits)

lemma bestLoop_below:
  "\<forall>x\<in>set pre. \<not> ge_num (map_of rel x) v \<Longrightarrow> score < v \<Longrightarrow>
   \<exists>best' score'. score' < v \<and>
      bestLoop (pre @ rest) rel best score = bestLoop rest rel best' score'"
proof (induction pre arbitrary: best score)
  case Nil
  then show ?case by auto
next
  case (Cons x pre)
  show ?case
  proof (cases "map_of rel x")
    case None
    with Cons show ?thesis by simp
  next
    case (Some r)
    with Cons.prems have "r < v" by (simp add: ge_num_def)
    with Cons Some show ?thesis by simp
  qed
qed

lemma bestLoop_first_max:
  assumes "\<forall>x\<in>set pre. \<not> ge_num (map_of rel x) v"
    and "map_of rel f = Some v" and "0 < v"
    and "\<forall>x\<in>set post. \<not> gt_num (map_of rel x) v"
  shows "bestLoop (pre @ f # post) rel None 0 = Some f"
proof -
  from bestLoop_below [OF assms(1) assms(3)] obtain best' score' where
    s: "score' < v" and
    e: "bestLoop (pre @ f # post) rel None 0 = bestLoop (f # post) rel best' score'"
    by blast
  have "bestLoop (f # post) rel best' score' = bestLoop post rel (Some f) v"
    using s assms(2) by simp
  also have "\<dots> = Some f" using assms(4) by (rule bestLoop_keep)
  finally show ?thesis using e by simp
qed

text \<open>
  Claim C2. \<^verbatim>\<open>findBestField\<close> returns the first candidate in list order whose reliability
  is at least the threshold. When no candidate reaches the threshold it returns the
  candidate of highest reliability, the earliest one among equals: the candidate \<open>f\<close> with
  a positive reliability \<open>v\<close> that every earlier candidate stays below and no later
  candidate exceeds. When no candidate reaches the threshold and none has a positive
  reliability (for percentages: all are zero or missing) the result is absent. The two
  instances of the specification are the last two conjuncts.
\<close>

theorem findBestField_selection:
  "(candidates = pre @ f # post \<and> ge_num (map_of rel f) threshold
      \<and> (\<forall>x\<in>set pre. \<not> ge_num (map_of rel x) threshold)
    \<longrightarrow> findBestField candidates rel threshold = Some f)
   \<and> (candidates = pre @ f # post
      \<and> (\<forall>x\<in>set candidates. \<not> ge_num (map_of rel x) threshold)
      \<and> map_of rel f = Some v \<and> 0 < v
      \<and> (\<forall>x\<in>set pre. \<not> ge_num (map_of rel x) v)
      \<and> (\<forall>x\<in>set post. \<not> gt_num (map_of rel x) v)
    \<longrightarrow> findBestField candidates rel threshold = Some f)
   \<and> ((\<forall>x\<in>set candidates. \<not> ge_num (map_of rel x) threshold)
      \<and> (\<forall>x\<in>set candidates. \<not> gt_num (map_of rel x) 0)
    \<longrightarrow> findBestField candidates rel threshold = None)
   \<and> findBestField [''a'', ''b''] [(''a'', 40), (''b'', 95)] 90 = Some ''b''
   \<and> findBestField [''a'', ''b''] [(''a'', 40), (''b'', 40)] 90 = Some ''a''"
proof (intro conjI impI)
  assume "candidates = pre @ f # post \<and> ge_num (map_of rel f) threshold
      \<and> (\<forall>x\<in>set pre. \<not> ge_num (map_of rel x) threshold)"
  then show "findBestField candidates rel threshold = Some f"
    by (simp add: findBestField_def firstMeeting_first)
next
  assume a: "candidates = pre @ f # post
      \<and> (\<forall>x\<in>set candidates. \<not> ge_num (map_of rel x) threshold)
      \<and> map_of rel f = Some v \<and> 0 < v
      \<and> (\<forall>x\<in>set pre. \<not> ge_num (map_of rel x) v)
      \<and> (\<forall>x\<in>set post. \<not> gt_num (map_of rel x) v)"
  then have "firstMeeting candidates rel threshold = None"
    by (intro firstMeeting_none) blast
  moreover have "bestLoop (pre @ f # post) rel None 0 = Some f"
    using a by (intro bestLoop_first_max) auto
  ultimately show "findBestField candidates rel threshold = Some f"
    using a by (simp add: findBestField_def)
next
  assume a: "(\<forall>x\<in>set candidates. \<not> ge_num (map_of rel x) threshold)
      \<and> (\<forall>x\<in>set candidates. \<not> gt_num (map_of rel x) 0)"
  then have "firstMeeting candidates rel threshold = None"
    by (intro firstMeeting_none) blast
  moreover have "bestLoop candidates rel None 0 = None"
    using a by (intro bestLoop_keep) blast
  ultimately show "findBestField candidates rel threshold = None"
    by (simp add: findBestField_def)
next
  show "findBestField [''a'', ''b''] [(''a'', 40), (''b'', 95)] 90 = Some ''b''"
    by (simp add: findBestField_def ge_num_def)
next
  show "findBestField [''a'', ''b''] [(''a'', 40), (''b'', 40)] 90 = Some ''a''"
    by (simp add: findBestField_def ge_num_def)
qed

theorem findBestField_selection_witness:
  "findBestField [''x'', ''y'', ''z''] [(''x'', 40), (''y'', 95), (''z'', 99)] 90 = Some ''y''
   \<and> findBestField [''x'', ''y'', ''z''] [(''x'', 10), (''y'', 40), (''z'', 40)] 90 = Some ''y''
   \<and> findBestField [''x'', ''y''] [(''x'', 0)] 90 = None"
proof -
  have 1: "findBestField [''x'', ''y'', ''z''] [(''x'', 40), (''y'', 95), (''z'', 99)] 90 = Some ''y''"
    using findBestField_selection [of "[''x'', ''y'', ''z'']" "[''x'']" "''y''" "[''z'']"
        "[(''x'', 40), (''y'', 95), (''z'', 99)]" 90 0]
    by (simp add: ge_num_def)
  have 2: "findBestField [''x'', ''y'', ''z''] [(''x'', 10), (''y'', 40), (''z'', 40)] 90 = Some ''y''"
    using findBestField_selection [of "[''x'', ''y'', ''z'']" "[''x'']" "''y''" "[''z'']"
        "[(''x'', 10), (''y'', 40), (''z'', 40)]" 90 40]
    by (simp add: ge_num_def gt_num_def)
  have 3: "findBestField [''x'', ''y''] [(''x'', 0)] 90 = None"
    using findBestField_selection [of "[''x'', ''y'']" "[]" "''x''" "[''y'']" "[(''x'', 0)]" 90 0]
    by (simp add: ge_num_def gt_num_def)
  from 1 2 3 show ?thesis by simp
qed

section \<open>Properties of the reliability aggregator\<close>























section \<open>Properties of the feed-type detector\<close>

text \<open>
  Claim C4, as the code has it. \<^verbatim>\<open>detectFeedType\<close> is total and looks at every element of the
  document, not at the root alone. A document whose root is \<^verbatim>\<open>rss\<close> yields \<^verbatim>\<open>rss\<close> followed by the
  root's \<^verbatim>\<open>version\<close> attribute (\<^verbatim>\<open>2.0\<close> when it is missing or empty); a document that contains
  an \<^verbatim>\<open>rss\<close> element anywhere yields \<^verbatim>\<open>rss\<close> followed by a version; otherwise one that contains a
  \<^verbatim>\<open>feed\<close> element yields \<^verbatim>\<open>atom\<close>; otherwise one that contains an \<^verbatim>\<open>RDF\<close> element yields
  \<^verbatim>\<open>rss1.0\<close>; a document that contains none of them yields \<^verbatim>\<open>unknown\<close>.
\<close>

theorem detectFeedType_by_elements:
  "(documentElement doc = Some (Element p ''rss'' as cs) \<longrightarrow>
      detectFeedType doc
        = ''rss'' @ (case map_of as ''version'' of
                       Some v \<Rightarrow> (if v = [] then ''2.0'' else v)
                     | None \<Rightarrow> ''2.0''))
   \<and> (''rss'' \<in> elementNames doc \<longrightarrow> (\<exists>v. v \<noteq> [] \<and> detectFeedType doc = ''rss'' @ v))
   \<and> (''rss'' \<notin> elementNames doc \<and> ''feed'' \<in> elementNames doc \<longrightarrow>
        detectFeedType doc = ''atom'')
   \<and> (''rss'' \<notin> elementNames doc \<and> ''feed'' \<notin> elementNames doc
        \<and> (''RDF'' \<in> elementNames doc \<or> ''rdf:RDF'' \<in> elementNames doc) \<longrightarrow>
        detectFeedType doc = ''rss1.0'')
   \<and> (''rss'' \<notin> elementNames doc \<and> ''feed'' \<notin> elementNames doc
        \<and> ''RDF'' \<notin> elementNames doc \<and> ''rdf:RDF'' \<notin> elementNames doc \<longrightarrow>
        detectFeedType doc = ''unknown'')"
proof (intro conjI impI)
  assume "documentElement doc = Some (Element p ''rss'' as cs)"
  from doc_query_root [OF this]
  show "detectFeedType doc
        = ''rss'' @ (case map_of as ''version'' of
                       Some v \<Rightarrow> (if v = [] then ''2.0'' else v)
                     | None \<Rightarrow> ''2.0'')"
    by (simp add: detectFeedType_def css_rss getAttribute_def split: option.splits)
next
  assume "''rss'' \<in> elementNames doc"
  then have "doc_querySelector doc [TypeSel ''rss'' []] \<noteq> None"
    by (simp add: doc_query_None)
  then obtain e where "doc_querySelector doc [TypeSel ''rss'' []] = Some e" by auto
  then show "\<exists>v. v \<noteq> [] \<and> detectFeedType doc = ''rss'' @ v"
    by (simp add: detectFeedType_def css_rss split: option.splits)
next
  assume a: "''rss'' \<notin> elementNames doc \<and> ''feed'' \<in> elementNames doc"
  then have "doc_querySelector doc [TypeSel ''rss'' []] = None"
    "doc_querySelector doc [TypeSel ''feed'' []] \<noteq> None"
    by (simp_all add: doc_query_None)
  then show "detectFeedType doc = ''atom''"
    by (simp add: detectFeedType_def css_rss css_feed)
next
  assume a: "''rss'' \<notin> elementNames doc \<and> ''feed'' \<notin> elementNames doc
        \<and> (''RDF'' \<in> elementNames doc \<or> ''rdf:RDF'' \<in> elementNames doc)"
  then have "doc_querySelector doc [TypeSel ''rss'' []] = None"
    "doc_querySelector doc [TypeSel ''feed'' []] = None"
    "doc_querySelector doc [TypeSel ''rdf:RDF'' [], TypeSel ''RDF'' []] \<noteq> None"
    by (auto simp: doc_query_None doc_query_None2)
  then show "detectFeedType doc = ''rss1.0''"
    unfolding detectFeedType_def css_rss css_feed css_rdf by simp
next
  assume a: "''rss'' \<notin> elementNames doc \<and> ''feed'' \<notin> elementNames doc
        \<and> ''RDF'' \<notin> elementNames doc \<and> ''rdf:RDF'' \<notin> elementNames doc"
  then have "doc_querySelector doc [TypeSel ''rss'' []] = None"
    "doc_querySelector doc [TypeSel ''feed'' []] = None"
    "doc_querySelector doc [TypeSel ''rdf:RDF'' [], TypeSel ''RDF'' []] = None"
    by (auto simp: doc_query_None doc_query_None2)
  then show "detectFeedType doc = ''unknown''"
    unfolding detectFeedType_def css_rss css_feed css_rdf by simp
qed

theorem detectFeedType_by_elements_witness:
  "detectFeedType oldRssDocument = ''rss0.91''
   \<and> (\<exists>v. v \<noteq> [] \<and> detectFeedType oldRssDocument = ''rss'' @ v)
   \<and> detectFeedType nestedFeedDocument = ''atom''
   \<and> detectFeedType rdfDocument = ''rss1.0''
   \<and> detectFeedType emptyDocument = ''unknown''"
  using detectFeedType_by_elements [of oldRssDocument "[]" "[(''version'', ''0.91'')]"
      "[Element [] ''channel'' [] []]"]
    detectFeedType_by_elements [of nestedFeedDocument]
    detectFeedType_by_elements [of rdfDocument]
    detectFeedType_by_elements [of emptyDocument]
  by (simp add: oldRssDocument_def nestedFeedDocument_def rdfDocument_def emptyDocument_def
      elementNames_def doc_elements_def)

text \<open>
  The claim as the specification words it, that every document whose root is none of the
  three yields \<^verbatim>\<open>unknown\<close>, fails on \<open>nestedFeedDocument\<close>, whose root is \<^verbatim>\<open>catalog\<close>: the \<^verbatim>\<open>feed\<close>
  element below the root makes it \<^verbatim>\<open>atom\<close>.
\<close>

theorem detectFeedType_counterexample:
  "documentElement nestedFeedDocument = Some (Element [] ''catalog'' [] [Element [] ''feed'' [] []])
   \<and> detectFeedType nestedFeedDocument = ''atom''
   \<and> detectFeedType nestedFeedDocument \<noteq> ''unknown''"
  by (simp add: nestedFeedDocument_def detectFeedType_def css_rss css_feed doc_querySelector_def
      doc_elements_def matches_def)

section \<open>Properties of the quality validator\<close>

text \<open>
  Claim C5. The quality score is 100 minus 20 for each issue and 5 for each warning,
  clamped to the range from 0 to 100, both for \<^verbatim>\<open>calculateQualityScore\<close> on any two lists
  and for the score \<^verbatim>\<open>validateDataQuality\<close> reports about its own issues and warnings; and
  \<^verbatim>\<open>isValid\<close> holds exactly when the list of issues is empty, whatever the warnings and
  suggestions are.
\<close>

theorem quality_score_and_validity:
  "calculateQualityScore iss warns
     = max 0 (min 100 (100 - 20 * int (length iss) - 5 * int (length warns)))
   \<and> 0 \<le> calculateQualityScore iss warns \<and> calculateQualityScore iss warns \<le> 100
   \<and> qualityScore (validateDataQuality a)
       = max 0 (min 100 (100 - 20 * int (length (issues (validateDataQuality a)))
                           - 5 * int (length (warnings (validateDataQuality a)))))
   \<and> isValid (validateDataQuality a) = (issues (validateDataQuality a) = [])"
proof -
  have score: "calculateQualityScore xs ys
     = max 0 (min 100 (100 - 20 * int (length xs) - 5 * int (length ys)))" for xs :: "'x list" and ys :: "'y list"
    by (simp add: calculateQualityScore_def)
  show ?thesis
    unfolding validation_parts score by simp
qed

section \<open>Properties of a feed without items\<close>

lemma validate_issues:
  "issues (validateDataQuality a) =
     foldl (requiredStep a)
       (if itemCount a = 0
        then [\<lparr>level = ''error'', message = ''Feed contains no items'', field = ''items'',
               found_reliability = None\<rparr>]
        else [])
       requiredFields"
  by (simp only: validateDataQuality_def Let_def validation.simps)

lemma required_issues:
  "foldl (requiredStep a) iss requiredFields
     = iss @ concat (map (\<lambda>f. requiredStep a [] f) requiredFields)"
  by (simp add: requiredFields_def requiredStep_def Let_def)

lemma required_fields_named:
  "i \<in> set (requiredStep a [] f) \<Longrightarrow> field i = f"
  by (auto simp: requiredStep_def Let_def split: if_splits)

lemma zero_items_validation:
  assumes "itemCount a = 0"
  shows "\<not> isValid (validateDataQuality a)"
    and "length (filter (\<lambda>i. field i = ''items'') (issues (validateDataQuality a))) = 1"
    and "qualityScore (validateDataQuality a) \<le> 80"
proof -
  let ?i0 = "\<lparr>level = ''error'', message = ''Feed contains no items'', field = ''items'',
               found_reliability = None\<rparr>"
  let ?rest = "concat (map (\<lambda>f. requiredStep a [] f) requiredFields)"
  have iss: "issues (validateDataQuality a) = ?i0 # ?rest"
    using assms by (simp add: validate_issues required_issues)
  have "\<forall>i\<in>set ?rest. field i \<noteq> ''items''"
    by (auto simp: requiredFields_def dest: required_fields_named)
  then have "filter (\<lambda>i. field i = ''items'') ?rest = []"
    by (simp add: filter_empty_conv)
  with iss show "length (filter (\<lambda>i. field i = ''items'') (issues (validateDataQuality a))) = 1"
    by simp
  from iss show "\<not> isValid (validateDataQuality a)"
    by (simp add: validation_parts)
  from iss have "1 \<le> length (issues (validateDataQuality a))" by simp
  then show "qualityScore (validateDataQuality a) \<le> 80"
    by (simp add: validation_parts calculateQualityScore_def)
qed

lemma sampledState_none: "n \<le> 0 \<Longrightarrow> sampledState pf d its n = initState"
proof -
  assume "n \<le> 0"
  then have "\<lceil>n\<rceil> \<le> 0" by (simp add: ceiling_le_zero)
  then show ?thesis by (simp add: sampledState_def)
qed

lemma analyze_empty_feed:
  assumes "doc_querySelector (parseFromString pf x) (css ''parsererror'') = None"
    and "doc_querySelectorAll (parseFromString pf x)
           (css (if detectFeedType (parseFromString pf x) = ''atom''
                 then ''entry'' else ''item'')) = []"
  shows "\<exists>a. analyzeFeedStructure pf x sampleSize d = Inr a \<and> itemCount a = 0
             \<and> samplesAnalyzed a = min sampleSize 0
             \<and> fieldReliability a = [] \<and> fieldPatterns a = [] \<and> items a = []"
proof -
  have "min sampleSize 0 \<le> (0::rat)" by simp
  from analyzeFeedStructure_valid [OF assms(1), of sampleSize d] assms(2)
    sampledState_none [OF this, of pf d "[]"]
  show ?thesis by (auto simp: initState_def)
qed

text \<open>
  Claim C6. For a feed that is fetched and parsed without error and has no items, the call
  succeeds: \<^verbatim>\<open>analyzeRSSFeed\<close> returns the success report, after one request. Its analysis has
  \<^verbatim>\<open>itemCount = 0\<close>, and its validation has \<^verbatim>\<open>isValid = false\<close>, exactly one issue whose field
  is \<^verbatim>\<open>items\<close> and a quality score of at most 80. (The issues are four in all: with no
  sampled item the fields \<^verbatim>\<open>title\<close>, \<^verbatim>\<open>link\<close> and \<^verbatim>\<open>description\<close> are reported as missing too.)
\<close>

theorem zero_item_feed:
  assumes "feed_url inp = Some url" and "url \<noteq> []"
    and "http_request pf url = Inr resp" and "success resp"
    and "doc_querySelector (parseFromString pf (body resp)) (css ''parsererror'') = None"
    and "doc_querySelectorAll (parseFromString pf (body resp))
           (css (if detectFeedType (parseFromString pf (body resp)) = ''atom''
                 then ''entry'' else ''item'')) = []"
  shows "\<exists>a ms v c.
           analyzeRSSFeed pf inp = (SuccessReport url a ms v c (now_iso pf), [url])
           \<and> itemCount a = 0 \<and> v = validateDataQuality a
           \<and> \<not> isValid v
           \<and> length (filter (\<lambda>i. field i = ''items'') (issues v)) = 1
           \<and> qualityScore v \<le> 80
           \<and> map field (issues v) = [''items'', ''title'', ''link'', ''description'']"
proof -
  let ?s = "case sample_size inp of Some n \<Rightarrow> n | None \<Rightarrow> 5"
  let ?d = "case deep_scan inp of Some d \<Rightarrow> d | None \<Rightarrow> True"
  from analyze_empty_feed [OF assms(5,6), of ?s ?d] obtain a where
    a: "analyzeFeedStructure pf (body resp) ?s ?d = Inr a" "itemCount a = 0"
       "fieldReliability a = []"
    by blast
  from fetchFeed_ok [OF assms(3,4)] have f: "fetchFeed pf url = (Inr (body resp), [url])" .
  have r: "analyzeRSSFeed pf inp =
             (SuccessReport url a (generateFieldMappings a) (validateDataQuality a)
                (checkCompatibility a) (now_iso pf), [url])"
    using analyzeRSSFeed_fetched [OF assms(1,2) f] a(1) by simp
  have "map field (issues (validateDataQuality a)) = [''items'', ''title'', ''link'', ''description'']"
    using a(2,3) by (simp add: validate_issues requiredFields_def requiredStep_def Let_def)
  with zero_items_validation [OF a(2)] a(2) show ?thesis
    unfolding r by simp
qed

theorem zero_item_feed_witness:
  "\<exists>a ms v c.
     analyzeRSSFeed (servingPlatform emptyFeedDocument) exampleInputs
       = (SuccessReport ''https://x/feed'' a ms v c ''1970-01-01T00:00:00.000Z'',
          [''https://x/feed''])
     \<and> itemCount a = 0 \<and> \<not> isValid v
     \<and> length (filter (\<lambda>i. field i = ''items'') (issues v)) = 1
     \<and> qualityScore v \<le> 80"
proof -
  have e: "doc_elements emptyFeedDocument =
        [Element [] ''rss'' [(''version'', ''2.0'')]
          [Element [] ''channel'' [] [Element [] ''title'' [] [Text ''Empty'']]],
         Element [] ''channel'' [] [Element [] ''title'' [] [Text ''Empty'']],
         Element [] ''title'' [] [Text ''Empty'']]"
    by (simp add: emptyFeedDocument_def doc_elements_def)
  have t: "detectFeedType emptyFeedDocument = ''rss2.0''"
    unfolding detectFeedType_def css_rss
    by (simp add: doc_querySelector_def e matches_def getAttribute_def)
  have i: "css ''item'' = [TypeSel ''item'' []]"
    by (simp add: css_def trim_plain isWhiteSpace_def bs_def)
  have 1: "doc_querySelector emptyFeedDocument (css ''parsererror'') = None"
    by (simp add: css_parsererror doc_querySelector_def e matches_def)
  have 2: "doc_querySelectorAll emptyFeedDocument
             (css (if detectFeedType emptyFeedDocument = ''atom'' then ''entry'' else ''item''))
           = []"
    by (simp add: t i doc_querySelectorAll_def e matches_def)
  from zero_item_feed [of exampleInputs "''https://x/feed''" "servingPlatform emptyFeedDocument"
      "\<lparr>success = True, status = Some 200, body = []\<rparr>"] 1 2
  show ?thesis
    by (simp add: exampleInputs_def servingPlatform_def) blast
qed

section \<open>Properties of the entry point on failure\<close>

text \<open>
  Claim C7. Without a \<^verbatim>\<open>feed_url\<close> (missing or empty) \<^verbatim>\<open>analyzeRSSFeed\<close> returns the failure
  \<^verbatim>\<open>feed_url is required\<close> and has requested nothing. With one, a request that throws, a
  response that is not a success and content the parser rejects each end the call with
  the single report \<^verbatim>\<open>{success: false, error, details}\<close> of the \<^verbatim>\<open>catch\<close> block, after exactly
  one request; so does every error \<^verbatim>\<open>analyzeFeedStructure\<close> raises. A failure report holds
  an error text and the details only, no part of an analysis.
\<close>

theorem failures_abort:
  "(feed_url inp = None \<or> feed_url inp = Some [] \<longrightarrow>
      analyzeRSSFeed pf inp = (RequiredReport ''feed_url is required'', []))
   \<and> (feed_url inp = Some url \<and> url \<noteq> [] \<and> http_request pf url = Inl e \<longrightarrow>
        (\<exists>msg details. analyzeRSSFeed pf inp = (FailureReport msg details, [url])))
   \<and> (feed_url inp = Some url \<and> url \<noteq> [] \<and> http_request pf url = Inr resp
        \<and> \<not> success resp \<longrightarrow>
        (\<exists>why details.
           analyzeRSSFeed pf inp
             = (FailureReport (''Failed to fetch feed: '' @ why) details, [url])))
   \<and> (feed_url inp = Some url \<and> url \<noteq> [] \<and> http_request pf url = Inr resp
        \<and> success resp
        \<and> doc_querySelector (parseFromString pf (body resp)) (css ''parsererror'')
            = Some parseError \<longrightarrow>
        (\<exists>details.
           analyzeRSSFeed pf inp
             = (FailureReport (''Invalid XML: '' @ textContent parseError) details, [url])))
   \<and> (feed_url inp = Some url \<and> url \<noteq> [] \<and> fetchFeed pf url = (Inr content, requested)
        \<and> analyzeFeedStructure pf content
             (case sample_size inp of Some n \<Rightarrow> n | None \<Rightarrow> 5)
             (case deep_scan inp of Some d \<Rightarrow> d | None \<Rightarrow> True) = Inl e \<longrightarrow>
        (\<exists>msg details. fst (analyzeRSSFeed pf inp) = FailureReport msg details))"
proof (intro conjI impI)
  assume "feed_url inp = None \<or> feed_url inp = Some []"
  then show "analyzeRSSFeed pf inp = (RequiredReport ''feed_url is required'', [])"
    by (auto simp: analyzeRSSFeed_def Let_def)
next
  assume a: "feed_url inp = Some url \<and> url \<noteq> [] \<and> http_request pf url = Inl e"
  then have "fetchFeed pf url = (Inl e, [url])" by (simp add: fetchFeed_throws)
  with a have "analyzeRSSFeed pf inp = (catchError e, [url])"
    by (simp add: analyzeRSSFeed_fetch_failed)
  then show "\<exists>msg details. analyzeRSSFeed pf inp = (FailureReport msg details, [url])"
    by (simp add: catchError_def)
next
  assume a: "feed_url inp = Some url \<and> url \<noteq> [] \<and> http_request pf url = Inr resp
        \<and> \<not> success resp"
  let ?why = "case status resp of
                Some n \<Rightarrow> (if n \<noteq> 0 then show_nat n else ''Unknown error'')
              | None \<Rightarrow> ''Unknown error''"
  from a have "fetchFeed pf url = (Inl (new_Error pf (''Failed to fetch feed: '' @ ?why)), [url])"
    by (simp add: fetchFeed_refused)
  with a have "analyzeRSSFeed pf inp
                 = (catchError (new_Error pf (''Failed to fetch feed: '' @ ?why)), [url])"
    by (simp add: analyzeRSSFeed_fetch_failed)
  then show "\<exists>why details.
           analyzeRSSFeed pf inp
             = (FailureReport (''Failed to fetch feed: '' @ why) details, [url])"
    by (simp add: catchError_new)
next
  assume a: "feed_url inp = Some url \<and> url \<noteq> [] \<and> http_request pf url = Inr resp
        \<and> success resp
        \<and> doc_querySelector (parseFromString pf (body resp)) (css ''parsererror'')
            = Some parseError"
  then have f: "fetchFeed pf url = (Inr (body resp), [url])" by (simp add: fetchFeed_ok)
  from a have "analyzeFeedStructure pf (body resp)
                 (case sample_size inp of Some n \<Rightarrow> n | None \<Rightarrow> 5)
                 (case deep_scan inp of Some d \<Rightarrow> d | None \<Rightarrow> True)
               = Inl (new_Error pf (''Invalid XML: '' @ textContent parseError))"
    by (simp add: analyzeFeedStructure_invalid)
  with a f have "analyzeRSSFeed pf inp
                 = (catchError (new_Error pf (''Invalid XML: '' @ textContent parseError)), [url])"
    by (simp add: analyzeRSSFeed_fetched)
  then show "\<exists>details.
           analyzeRSSFeed pf inp
             = (FailureReport (''Invalid XML: '' @ textContent parseError) details, [url])"
    by (simp add: catchError_new)
next
  assume a: "feed_url inp = Some url \<and> url \<noteq> [] \<and> fetchFeed pf url = (Inr content, requested)
        \<and> analyzeFeedStructure pf content
             (case sample_size inp of Some n \<Rightarrow> n | None \<Rightarrow> 5)
             (case deep_scan inp of Some d \<Rightarrow> d | None \<Rightarrow> True) = Inl e"
  then have "analyzeRSSFeed pf inp = (catchError e, requested)"
    by (simp add: analyzeRSSFeed_fetched)
  then show "\<exists>msg details. fst (analyzeRSSFeed pf inp) = FailureReport msg details"
    by (simp add: catchError_def)
qed

theorem failures_abort_witness:
  "analyzeRSSFeed failingPlatform \<lparr>feed_url = None, sample_size = None, deep_scan = None\<rparr>
     = (RequiredReport ''feed_url is required'', [])
   \<and> analyzeRSSFeed failingPlatform \<lparr>feed_url = Some [], sample_size = None, deep_scan = None\<rparr>
       = (RequiredReport ''feed_url is required'', [])
   \<and> (\<exists>msg details.
         analyzeRSSFeed throwingPlatform exampleInputs
           = (FailureReport msg details, [''https://x/feed'']))
   \<and> (\<exists>why details.
         analyzeRSSFeed failingPlatform exampleInputs
           = (FailureReport (''Failed to fetch feed: '' @ why) details, [''https://x/feed'']))
   \<and> (\<exists>details.
         analyzeRSSFeed (servingPlatform brokenDocument) exampleInputs
           = (FailureReport ''Invalid XML: mismatched tag'' details, [''https://x/feed'']))
   \<and> (\<exists>msg details.
         fst (analyzeRSSFeed (servingPlatform brokenDocument) exampleInputs)
           = FailureReport msg details)"
proof -
  have p: "doc_querySelector brokenDocument (css ''parsererror'')
             = Some (Element [] ''parsererror'' [] [Text ''mismatched tag''])"
    by (simp add: css_parsererror doc_querySelector_def doc_elements_def brokenDocument_def
        matches_def)
  have 1: "analyzeRSSFeed failingPlatform \<lparr>feed_url = None, sample_size = None, deep_scan = None\<rparr>
     = (RequiredReport ''feed_url is required'', [])"
    using failures_abort [of "\<lparr>feed_url = None, sample_size = None, deep_scan = None\<rparr>"
        failingPlatform]
    by simp
  have 2: "analyzeRSSFeed failingPlatform
             \<lparr>feed_url = Some [], sample_size = None, deep_scan = None\<rparr>
     = (RequiredReport ''feed_url is required'', [])"
    using failures_abort [of "\<lparr>feed_url = Some [], sample_size = None, deep_scan = None\<rparr>"
        failingPlatform]
    by simp
  have 3: "\<exists>msg details.
         analyzeRSSFeed throwingPlatform exampleInputs
           = (FailureReport msg details, [''https://x/feed''])"
    using failures_abort [of exampleInputs throwingPlatform "''https://x/feed''"
        "Exn ''Request timed out'' None"]
    by (simp add: exampleInputs_def throwingPlatform_def)
  have 4: "\<exists>why details.
         analyzeRSSFeed failingPlatform exampleInputs
           = (FailureReport (''Failed to fetch feed: '' @ why) details, [''https://x/feed''])"
    using failures_abort [of exampleInputs failingPlatform "''https://x/feed''" _
        "\<lparr>success = False, status = Some 404, body = []\<rparr>"]
    by (simp add: exampleInputs_def failingPlatform_def)
  have 5: "\<exists>details.
         analyzeRSSFeed (servingPlatform brokenDocument) exampleInputs
           = (FailureReport ''Invalid XML: mismatched tag'' details, [''https://x/feed''])"
    using failures_abort [of exampleInputs "servingPlatform brokenDocument" "''https://x/feed''" _
        "\<lparr>success = True, status = Some 200, body = []\<rparr>"
        "Element [] ''parsererror'' [] [Text ''mismatched tag'']"] p
    by (simp add: exampleInputs_def servingPlatform_def)
  have f: "fetchFeed (servingPlatform brokenDocument) ''https://x/feed''
             = (Inr [], [''https://x/feed''])"
    by (simp add: fetchFeed_def servingPlatform_def)
  have g: "analyzeFeedStructure (servingPlatform brokenDocument) [] 5 True
             = Inl (new_Error (servingPlatform brokenDocument) ''Invalid XML: mismatched tag'')"
    using analyzeFeedStructure_invalid [of "servingPlatform brokenDocument" "[]" _ 5 True] p
    by (simp add: servingPlatform_def)
  have 6: "\<exists>msg details.
         fst (analyzeRSSFeed (servingPlatform brokenDocument) exampleInputs)
           = FailureReport msg details"
    using failures_abort [of exampleInputs "servingPlatform brokenDocument" "''https://x/feed''"
        "new_Error (servingPlatform brokenDocument) ''Invalid XML: mismatched tag''" _ _
        "[]" "[''https://x/feed'']"] f g
    by (simp add: exampleInputs_def)
  from 1 2 3 4 5 6 show ?thesis by (simp only: simp_thms)
qed

section \<open>Properties of the field extractor\<close>

lemma css_link: "css ''link'' = [TypeSel ''link'' []]"
  by (simp add: css_def trim_plain isWhiteSpace_def bs_def)

lemma namespaceFieldNames:
  "map selectorFieldName namespaceElements =
     [''content_encoded'', ''dc_creator'', ''dc_date'', ''media_content'', ''media_thumbnail'',
      ''enclosure'', ''itunes_image'', ''itunes_summary'', ''itunes_subtitle'']"
  by (simp add: namespaceElements_def selectorFieldName_def startsWith_def bs_def)

lemma namespaceStep_other:
  "k \<noteq> selectorFieldName sel \<Longrightarrow> map_of (namespaceStep item flds sel) k = map_of flds k"
  by (simp add: namespaceStep_def Let_def update_conv' split: option.splits)

lemma namespace_fold_other:
  "k \<notin> set (map selectorFieldName sels) \<Longrightarrow>
   map_of (foldl (namespaceStep item) flds sels) k = map_of flds k"
  by (induction sels arbitrary: flds) (simp_all add: namespaceStep_other)

lemma deepStep_other:
  "take 5 k \<noteq> ''auto_'' \<Longrightarrow> map_of (deepStep flds el) k = map_of flds k"
  by (auto simp: deepStep_def Let_def update_conv')

lemma deep_fold_other:
  "take 5 k \<noteq> ''auto_'' \<Longrightarrow> map_of (foldl deepStep flds els) k = map_of flds k"
  by (induction els arbitrary: flds) (simp_all add: deepStep_other)

lemma imageStep_other:
  "k \<noteq> ''extracted_images'' \<Longrightarrow> map_of (imageStep flds) k = map_of flds k"
  by (simp add: imageStep_def Let_def update_conv')

lemma linkStep_found:
  assumes "querySelector item (css ''link'') = Some linkEl"
  shows "map_of (linkStep item flds) ''link''
           = Some (or_js (attr_val (getAttribute linkEl ''href'')) (Str (textContent linkEl)))"
    and "map_of (linkStep item flds) ''link_rel'' = Some (attr_val (getAttribute linkEl ''rel''))"
    and "map_of (linkStep item flds) ''link_type'' = Some (attr_val (getAttribute linkEl ''type''))"
  using assms by (simp_all add: linkStep_def update_conv')

lemma extract_after_link:
  assumes "k = ''link'' \<or> k = ''link_rel'' \<or> k = ''link_type''"
  shows "map_of (extractAllFields item deepScan) k
           = map_of (linkStep item (foldl (standardStep item) [] standardFields)) k"
proof -
  from assms have 1: "k \<noteq> ''extracted_images''" and 2: "take 5 k \<noteq> ''auto_''"
    and 3: "k \<notin> set (map selectorFieldName namespaceElements)"
    unfolding namespaceFieldNames by auto
  show ?thesis
    by (simp add: extractAllFields_def Let_def imageStep_other [OF 1] deep_fold_other [OF 2]
        namespace_fold_other [OF 3])
qed

text \<open>
  Claim C8. When an item has a \<^verbatim>\<open>link\<close> element, the \<^verbatim>\<open>link\<close> field of the extracted fields is
  the value of its \<^verbatim>\<open>href\<close> attribute if it has one that is not empty, and its text content
  otherwise; \<^verbatim>\<open>link_rel\<close> and \<^verbatim>\<open>link_type\<close> hold the \<^verbatim>\<open>rel\<close> and \<^verbatim>\<open>type\<close> attributes (\<^verbatim>\<open>null\<close> when
  the element has none). No later step of the extraction, with or without the deep scan,
  changes these three fields. The Atom entry with
  \<^verbatim>\<open><link rel="alternate" href="https://x/1"/>\<close> gives the link \<^verbatim>\<open>https://x/1\<close> and the relation
  \<^verbatim>\<open>alternate\<close>.
\<close>

theorem link_prefers_href:
  "(querySelector item (css ''link'') = Some linkEl \<longrightarrow>
      map_of (extractAllFields item deepScan) ''link''
        = Some (case getAttribute linkEl ''href'' of
                  Some h \<Rightarrow> (if h \<noteq> [] then Str h else Str (textContent linkEl))
                | None \<Rightarrow> Str (textContent linkEl))
      \<and> map_of (extractAllFields item deepScan) ''link_rel''
          = Some (case getAttribute linkEl ''rel'' of Some r \<Rightarrow> Str r | None \<Rightarrow> Null)
      \<and> map_of (extractAllFields item deepScan) ''link_type''
          = Some (case getAttribute linkEl ''type'' of Some t \<Rightarrow> Str t | None \<Rightarrow> Null))
   \<and> map_of (extractAllFields atomEntry deepScan) ''link'' = Some (Str ''https://x/1'')
   \<and> map_of (extractAllFields atomEntry deepScan) ''link_rel'' = Some (Str ''alternate'')"
proof -
  have g: "querySelector item (css ''link'') = Some linkEl \<Longrightarrow>
      map_of (extractAllFields item deepScan) ''link''
        = Some (case getAttribute linkEl ''href'' of
                  Some h \<Rightarrow> (if h \<noteq> [] then Str h else Str (textContent linkEl))
                | None \<Rightarrow> Str (textContent linkEl))
      \<and> map_of (extractAllFields item deepScan) ''link_rel''
          = Some (case getAttribute linkEl ''rel'' of Some r \<Rightarrow> Str r | None \<Rightarrow> Null)
      \<and> map_of (extractAllFields item deepScan) ''link_type''
          = Some (case getAttribute linkEl ''type'' of Some t \<Rightarrow> Str t | None \<Rightarrow> Null)"
    for item linkEl
    by (simp add: extract_after_link linkStep_found or_js_def attr_val_def split: option.splits)
  have q: "querySelector atomEntry (css ''link'')
             = Some (Element [] ''link'' [(''rel'', ''alternate''), (''href'', ''https://x/1'')] [])"
    by (simp add: atomEntry_def css_link querySelector_def matches_def)
  from g [OF q] have "map_of (extractAllFields atomEntry deepScan) ''link'' = Some (Str ''https://x/1'')
   \<and> map_of (extractAllFields atomEntry deepScan) ''link_rel'' = Some (Str ''alternate'')"
    by (simp add: getAttribute_def)
  with g show ?thesis by blast
qed

theorem link_prefers_href_witness:
  "map_of (extractAllFields atomEntry True) ''link'' = Some (Str ''https://x/1'')
   \<and> map_of (extractAllFields atomEntry True) ''link_rel'' = Some (Str ''alternate'')
   \<and> map_of (extractAllFields atomEntry True) ''link_type'' = Some Null"
proof -
  have q: "querySelector atomEntry (css ''link'')
             = Some (Element [] ''link'' [(''rel'', ''alternate''), (''href'', ''https://x/1'')] [])"
    by (simp add: atomEntry_def css_link querySelector_def matches_def)
  from link_prefers_href [of atomEntry
      "Element [] ''link'' [(''rel'', ''alternate''), (''href'', ''https://x/1'')] []" True] q
  show ?thesis by (simp add: getAttribute_def)
qed

section \<open>Properties of the pattern analyzer\<close>








section \<open>Properties of the analysis without deep scan\<close>

lemma trackFields_patterns:
  "patternsSoFar (foldl (trackField pf False itf) st ks) = patternsSoFar st"
  by (induction ks arbitrary: st) (simp_all add: trackField_parts)

lemma itemStep_patterns:
  "patternsSoFar (itemStep pf False i item st) = patternsSoFar st"
  by (simp add: itemStep_def Let_def trackFields_patterns)

lemma steps_patterns:
  "patternsSoFar (foldl (\<lambda>st j. itemStep pf False j (its ! j) st) st js) = patternsSoFar st"
  by (induction js arbitrary: st) (simp_all add: itemStep_patterns)

lemma sampledState_patterns: "patternsSoFar (sampledState pf False its n) = []"
  by (simp add: sampledState_def steps_patterns initState_def)

lemma no_deep_scan_no_patterns:
  assumes "analyzeFeedStructure pf x sampleSize False = Inr a"
  shows "fieldPatterns a = []"
proof (cases "doc_querySelector (parseFromString pf x) (css ''parsererror'')")
  case None
  from analyzeFeedStructure_valid [OF None, of sampleSize False] assms show ?thesis
    by (auto simp: sampledState_patterns)
next
  case (Some e)
  from analyzeFeedStructure_invalid [OF Some, of sampleSize False] assms show ?thesis by simp
qed

lemma titleHtml_fold:
  "w \<in> set (foldl titleHtmlStep ws ps) \<Longrightarrow>
   w \<in> set ws \<or> (message w = ''Title field contains HTML markup''
                  \<and> (\<exists>e\<in>set ps. fst e = ''title'' \<and> hasHTML (snd e)))"
  by (induction ps arbitrary: ws) (fastforce simp: titleHtmlStep_def split: if_splits)+

lemma validate_warnings:
  "warnings (validateDataQuality a) =
     (let w1 = (if itemCount a = 0 then []
                else if itemCount a < 5
                then [\<lparr>level = ''warning'',
                       message = ''Feed only contains '' @ show_nat (itemCount a) @ '' items'',
                       field = ''items'', found_reliability = None\<rparr>]
                else []);
          w2 = (if \<not> list_ex (\<lambda>fld. gt_num (map_of (fieldReliability a) fld) 70) dateFields
                then w1 @ [\<lparr>level = ''warning'', message = ''No reliable date field found'',
                             field = ''date'', found_reliability = None\<rparr>]
                else w1);
          w3 = foldl titleHtmlStep w2 (fieldPatterns a)
      in if encoding a \<noteq> ''UTF-8''
         then w3 @ [\<lparr>level = ''warning'',
                      message = ''Feed uses '' @ encoding a @ '' encoding instead of UTF-8'',
                      field = ''encoding'', found_reliability = None\<rparr>]
         else w3)"
  by (simp only: validateDataQuality_def Let_def validation.simps)

lemma title_warning_origin:
  assumes "w \<in> set (warnings (validateDataQuality a))"
    and "message w = ''Title field contains HTML markup''"
  shows "\<exists>e\<in>set (fieldPatterns a). fst e = ''title'' \<and> hasHTML (snd e)"
proof -
  let ?w1 = "(if itemCount a = 0 then []
                else if itemCount a < 5
                then [\<lparr>level = ''warning'',
                       message = ''Feed only contains '' @ show_nat (itemCount a) @ '' items'',
                       field = ''items'', found_reliability = None\<rparr>]
                else [])"
  let ?w2 = "(if \<not> list_ex (\<lambda>fld. gt_num (map_of (fieldReliability a) fld) 70) dateFields
                then ?w1 @ [\<lparr>level = ''warning'', message = ''No reliable date field found'',
                             field = ''date'', found_reliability = None\<rparr>]
                else ?w1)"
  have 2: "\<forall>v\<in>set ?w2. message v \<noteq> ''Title field contains HTML markup''"
    by (simp split: if_splits)
  from assms(1) have "w \<in> set (foldl titleHtmlStep ?w2 (fieldPatterns a))
      \<or> message w = ''Feed uses '' @ encoding a @ '' encoding instead of UTF-8''"
    unfolding validate_warnings Let_def by (auto split: if_splits)
  with assms(2) have "w \<in> set (foldl titleHtmlStep ?w2 (fieldPatterns a))" by auto
  from titleHtml_fold [OF this] 2 assms(2) show ?thesis by blast
qed

lemma namespace_fold_recs:
  "r \<in> set (foldl namespaceStepC rs ns) \<Longrightarrow> r \<in> set rs \<or> (\<exists>n m. r = NamespaceRec n m)"
  by (induction ns arbitrary: rs) (fastforce simp: namespaceStepC_def split: if_splits)+

lemma html_fold_recs:
  "r \<in> set (foldl htmlStepC rs ps) \<Longrightarrow>
   r \<in> set rs \<or> (\<exists>e\<in>set ps. hasHTML (snd e) \<and> r = FieldRec (fst e) ''Contains HTML - consider stripping tags'')"
  by (induction ps arbitrary: rs) (fastforce simp: htmlStepC_def split: if_splits)+

lemma compat_recommendations:
  "recommendations (checkCompatibility a) =
     foldl htmlStepC
       (if length (map fst (namespaces a)) > 0
        then foldl namespaceStepC [] (map fst (namespaces a)) else [])
       (fieldPatterns a)"
  by (simp add: checkCompatibility_def Let_def)

lemma field_rec_origin:
  assumes "r \<in> set (recommendations (checkCompatibility a))"
  shows "(\<exists>n m. r = NamespaceRec n m)
         \<or> (\<exists>e\<in>set (fieldPatterns a). hasHTML (snd e)
               \<and> r = FieldRec (fst e) ''Contains HTML - consider stripping tags'')"
proof -
  from assms html_fold_recs have
    "r \<in> set (if length (map fst (namespaces a)) > 0
               then foldl namespaceStepC [] (map fst (namespaces a)) else [])
     \<or> (\<exists>e\<in>set (fieldPatterns a). hasHTML (snd e)
               \<and> r = FieldRec (fst e) ''Contains HTML - consider stripping tags'')"
    unfolding compat_recommendations by blast
  then show ?thesis
    using namespace_fold_recs [of r "[]" "map fst (namespaces a)"]
    by (auto split: if_splits)
qed

text \<open>
  Claim C10. When \<^verbatim>\<open>deep_scan\<close> is false the \<^verbatim>\<open>fieldPatterns\<close> of the analysis are empty, for
  every platform, feed content and sample size. Consequently the validator issues no
  warning that the title contains HTML markup, and every recommendation of the
  compatibility check is about a namespace, none about stripping HTML. This holds for the
  analysis \<^verbatim>\<open>analyzeFeedStructure\<close> returns and for the report of \<^verbatim>\<open>analyzeRSSFeed\<close>.
\<close>

theorem no_patterns_without_deep_scan:
  "(analyzeFeedStructure pf x sampleSize False = Inr a \<longrightarrow>
      fieldPatterns a = []
      \<and> (\<forall>w\<in>set (warnings (validateDataQuality a)).
            message w \<noteq> ''Title field contains HTML markup'')
      \<and> (\<forall>r\<in>set (recommendations (checkCompatibility a)). \<exists>n m. r = NamespaceRec n m))
   \<and> (deep_scan inp = Some False
        \<and> fst (analyzeRSSFeed pf inp) = SuccessReport u b ms v c t \<longrightarrow>
      fieldPatterns b = []
      \<and> (\<forall>w\<in>set (warnings v). message w \<noteq> ''Title field contains HTML markup'')
      \<and> (\<forall>r\<in>set (recommendations c). \<exists>n m. r = NamespaceRec n m))"
proof -
  have g: "fieldPatterns a = []
      \<and> (\<forall>w\<in>set (warnings (validateDataQuality a)).
            message w \<noteq> ''Title field contains HTML markup'')
      \<and> (\<forall>r\<in>set (recommendations (checkCompatibility a)). \<exists>n m. r = NamespaceRec n m)"
    if "analyzeFeedStructure pf x sampleSize False = Inr a" for x sampleSize a
  proof -
    from that have p: "fieldPatterns a = []" by (rule no_deep_scan_no_patterns)
    with title_warning_origin [of _ a] field_rec_origin [of _ a] show ?thesis by fastforce
  qed
  have h: "fieldPatterns b = []
      \<and> (\<forall>w\<in>set (warnings v). message w \<noteq> ''Title field contains HTML markup'')
      \<and> (\<forall>r\<in>set (recommendations c). \<exists>n m. r = NamespaceRec n m)"
    if "deep_scan inp = Some False \<and> fst (analyzeRSSFeed pf inp) = SuccessReport u b ms v c t"
  proof -
    from that obtain y s where
      "analyzeFeedStructure pf y s False = Inr b" "v = validateDataQuality b"
      "c = checkCompatibility b"
      using analyzeRSSFeed_success [of pf inp u b ms v c t] by auto
    with g [of y s b] show ?thesis by simp
  qed
  from g h show ?thesis by blast
qed

theorem no_patterns_without_deep_scan_witness:
  "analyzeFeedStructure (servingPlatform threeItemDocument) [] 5 False = Inr sampledAnalysis
   \<and> fieldPatterns sampledAnalysis = []
   \<and> ''Title field contains HTML markup''
       \<notin> set (map message (warnings (validateDataQuality sampledAnalysis)))
   \<and> recommendations (checkCompatibility sampledAnalysis) = []
   \<and> fst (analyzeRSSFeed (servingPlatform threeItemDocument)
             (exampleInputs\<lparr>deep_scan := Some False\<rparr>))
       = SuccessReport ''https://x/feed'' sampledAnalysis (generateFieldMappings sampledAnalysis)
           (validateDataQuality sampledAnalysis) (checkCompatibility sampledAnalysis)
           ''1970-01-01T00:00:00.000Z''"
proof -
  let ?pf = "servingPlatform threeItemDocument"
  let ?inp = "exampleInputs\<lparr>deep_scan := Some False\<rparr>"
  have a: "analyzeFeedStructure ?pf [] 5 False = Inr sampledAnalysis"
    by code_simp
  have r: "fst (analyzeRSSFeed ?pf ?inp)
       = SuccessReport ''https://x/feed'' sampledAnalysis (generateFieldMappings sampledAnalysis)
           (validateDataQuality sampledAnalysis) (checkCompatibility sampledAnalysis)
           ''1970-01-01T00:00:00.000Z''"
    using analyzeRSSFeed_fetched [of ?inp "''https://x/feed''" ?pf "[]" "[''https://x/feed'']"] a
    by (simp add: exampleInputs_def fetchFeed_def servingPlatform_def)
  have d: "deep_scan ?inp = Some False" by simp
  from no_patterns_without_deep_scan [of ?pf "[]" 5 sampledAnalysis ?inp "''https://x/feed''"
      sampledAnalysis "generateFieldMappings sampledAnalysis" "validateDataQuality sampledAnalysis"
      "checkCompatibility sampledAnalysis" "''1970-01-01T00:00:00.000Z''"] a r d
  have p: "fieldPatterns sampledAnalysis = []"
    and w: "\<forall>w\<in>set (warnings (validateDataQuality sampledAnalysis)).
              message w \<noteq> ''Title field contains HTML markup''"
    and c: "\<forall>r\<in>set (recommendations (checkCompatibility sampledAnalysis)).
              \<exists>n m. r = NamespaceRec n m"
    by blast+
  from w have w': "''Title field contains HTML markup''
       \<notin> set (map message (warnings (validateDataQuality sampledAnalysis)))"
    by auto
  have e: "recommendations (checkCompatibility sampledAnalysis) = []"
    by (simp add: compat_recommendations p) (simp add: sampledAnalysis_def overSampledAnalysis_def)
  from a p w' e r show ?thesis by (simp only: simp_thms)
qed

end
